theory Spec2Isabelle
  imports Complex_Main "HOL-Library.Monad_Syntax"
begin

section \<open>Cross-Entropy Method: garage/np/algos/cem.py\<close>

text \<open>
  The module computes with NumPy and Python float64 values. A float64 is modelled by the
  real number it denotes; a non-finite result (\<open>inf\<close> or \<open>nan\<close>) is the value \<open>None\<close>
  of type \<open>real option\<close>, and \<open>None\<close> is also the \<open>np.nan\<close> fill value of
  \<open>zip_longest\<close>. Where the exact value of a result matters (the scalar estimator
  and the product that gives the number of survivors), every operation is rounded to
  float64 as IEEE 754 prescribes. The per-index statistics of the varying-length
  estimator, the exploration schedule and the mean and standard deviation of the
  survivors are kept in exact real arithmetic.
\<close>

subsection \<open>NumPy statistics\<close>

type_synonym npfloat = "real option"

datatype error = NotImplementedError | UnboundLocalError | IndexError
  | ZeroDivisionError | ValueError | OverflowError

text \<open>\<open>np.mean\<close> of a one-dimensional sequence: \<open>nan\<close> when it is empty.\<close>

definition np_mean :: "real list \<Rightarrow> npfloat" where
  "np_mean xs = (if xs = [] then None else Some (sum_list xs / real (length xs)))"

text \<open>
  \<open>np.std(xs, ddof=ddof)\<close>: the square root of the sum of squared deviations from the
  mean, divided by \<open>N - ddof\<close>. With \<open>N - ddof \<le> 0\<close> NumPy divides by zero and yields a
  non-finite value.
\<close>

definition np_std :: "nat \<Rightarrow> real list \<Rightarrow> npfloat" where
  "np_std ddof xs =
     (if length xs \<le> ddof then None
      else let mu = sum_list xs / real (length xs)
           in Some (sqrt ((\<Sum>x\<leftarrow>xs. (x - mu)\<^sup>2) / (real (length xs) - real ddof))))"

text \<open>Elementwise \<open>mu - std / np.sqrt(n)\<close>; any \<open>nan\<close> operand gives \<open>nan\<close>.\<close>

definition lower_bound :: "npfloat \<Rightarrow> npfloat \<Rightarrow> nat \<Rightarrow> npfloat" where
  "lower_bound mu sd n =
     (case (mu, sd) of
        (Some m, Some s) \<Rightarrow> if n = 0 then None else Some (m - s / sqrt (real n))
      | _ \<Rightarrow> None)"

subsection \<open>Float64 arithmetic\<close>

text \<open>Rounding to the nearest integer, a tie going to the even one.\<close>

definition round_half_even :: "real \<Rightarrow> int" where
  "round_half_even x =
     (let f = \<lfloor>x\<rfloor>; d = x - of_int f
      in if d < 1 / 2 then f else if 1 / 2 < d then f + 1
         else if even f then f else f + 1)"

text \<open>
  The binary exponent of a non-zero number, not below that of the smallest normal
  float64: the numbers of one exponent \<open>e\<close> are spaced \<open>2\<^sup>e\<^sup>-\<^sup>5\<^sup>2\<close> apart (53 significant
  bits; subnormal numbers are spaced \<open>2\<^sup>-\<^sup>1\<^sup>0\<^sup>7\<^sup>4\<close> apart).
\<close>

definition float_exponent :: "real \<Rightarrow> int" where
  "float_exponent x = max (- 1022) \<lfloor>log 2 \<bar>x\<bar>\<rfloor>"

definition round_to_grid :: "real \<Rightarrow> real" where
  "round_to_grid x =
     (let u = 2 powi (float_exponent x - 52)
      in of_int (round_half_even (x / u)) * u)"

text \<open>
  The float64 nearest to a real number (round to nearest, ties to even); a magnitude
  that rounds to \<open>2\<^sup>1\<^sup>0\<^sup>2\<^sup>4\<close> or beyond overflows to \<open>inf\<close>.
\<close>

definition round64 :: "real \<Rightarrow> npfloat" where
  "round64 x =
     (if x = 0 then Some 0
      else if \<bar>round_to_grid x\<bar> < 2 ^ 1024 then Some (round_to_grid x) else None)"

text \<open>
  The float64 operations on finite operands. Division by zero and the square root of a
  negative number give a non-finite result.
\<close>

definition fadd :: "real \<Rightarrow> real \<Rightarrow> npfloat" where
  "fadd a b = round64 (a + b)"

definition fsub :: "real \<Rightarrow> real \<Rightarrow> npfloat" where
  "fsub a b = round64 (a - b)"

definition fmul :: "real \<Rightarrow> real \<Rightarrow> npfloat" where
  "fmul a b = round64 (a * b)"

definition fdiv :: "real \<Rightarrow> real \<Rightarrow> npfloat" where
  "fdiv a b = (if b = 0 then None else round64 (a / b))"

definition fsqrt :: "real \<Rightarrow> npfloat" where
  "fsqrt a = (if a < 0 then None else round64 (sqrt a))"

text \<open>
  Adding the elements from left to right, starting from \<open>0.0\<close>: what NumPy's
  \<open>add.reduce\<close> does on fewer than eight elements.
\<close>

definition sequential_sum :: "real list \<Rightarrow> npfloat" where
  "sequential_sum xs = foldl (\<lambda>acc v. acc \<bind> (\<lambda>a. fadd a v)) (Some 0) xs"

subsection \<open>Trajectory statistics estimator\<close>

text \<open>
  \<^verbatim>\<open>
  def _get_stderr_lb(x):
      mu = np.mean(x, 0)
      stderr = np.std(x, axis=0, ddof=1 if len(x) > 1 else 0) / np.sqrt(len(x))
      return mu - stderr
  \<close>
\<close>

text \<open>
  The estimator in float64 arithmetic. The order in which NumPy's \<open>add.reduce\<close> adds the
  elements of an array depends on its length, so the summation is a parameter
  \<open>add_reduce\<close>; it yields \<open>None\<close> when the sum is not finite. \<open>np.mean\<close> divides the
  sum by the number of elements. \<open>np.std\<close> subtracts the mean from every element, squares
  the differences, sums them, divides by \<open>max(N - ddof, 0)\<close> and takes the square root.
  The lengths of the lists are far below \<open>2\<^sup>5\<^sup>3\<close> and convert to float64 exactly. A
  non-finite intermediate result makes the final result non-finite.
\<close>

definition np_mean64 :: "(real list \<Rightarrow> npfloat) \<Rightarrow> real list \<Rightarrow> npfloat" where
  "np_mean64 add_reduce x = do {
     s \<leftarrow> add_reduce x;
     fdiv s (real (length x))
   }"

definition np_std64 :: "(real list \<Rightarrow> npfloat) \<Rightarrow> nat \<Rightarrow> real list \<Rightarrow> npfloat" where
  "np_std64 add_reduce ddof x = do {
     arrmean \<leftarrow> np_mean64 add_reduce x;
     sq \<leftarrow> those (map (\<lambda>v. do { d \<leftarrow> fsub v arrmean; fmul d d }) x);
     ssum \<leftarrow> add_reduce sq;
     var \<leftarrow> fdiv ssum (real (length x - ddof));
     fsqrt var
   }"

definition get_stderr_lb :: "(real list \<Rightarrow> npfloat) \<Rightarrow> real list \<Rightarrow> npfloat" where
  "get_stderr_lb add_reduce x = do {
     mu \<leftarrow> np_mean64 add_reduce x;
     sd \<leftarrow> np_std64 add_reduce (if length x > 1 then 1 else 0) x;
     rootn \<leftarrow> fsqrt (real (length x));
     stderr \<leftarrow> fdiv sd rootn;
     fsub mu stderr
   }"

text \<open>
  \<open>zip_longest(*x, fillvalue=np.nan)\<close>: one tuple per index below the longest length,
  holding the entry of every sequence at that index, or the fill value where the
  sequence is too short.
\<close>

definition max_len :: "'a list list \<Rightarrow> nat" where
  "max_len x = foldr (\<lambda>s m. max (length s) m) x 0"

definition zip_longest :: "real list list \<Rightarrow> npfloat list list" where
  "zip_longest x =
     map (\<lambda>t. map (\<lambda>s. if t < length s then Some (s ! t) else None) x) [0..<max_len x]"

text \<open>The entries of a tuple that are not \<open>nan\<close>, which the \<open>nan\<close>-functions use.\<close>

definition non_nan :: "npfloat list \<Rightarrow> real list" where
  "non_nan temp_list = concat (map (\<lambda>v. case v of None \<Rightarrow> [] | Some r \<Rightarrow> [r]) temp_list)"

text \<open>
  \<^verbatim>\<open>
  def _get_stderr_lb_varyinglens(x):
      mus, stds, ns = [], [], []
      for temp_list in zip_longest(*x, fillvalue=np.nan):
          mus.append(np.nanmean(temp_list))
          n = len(temp_list) - np.sum(np.isnan(temp_list))
          stds.append(np.nanstd(temp_list, ddof=1 if n > 1 else 0))
          ns.append(n)
      return np.array(mus) - np.array(stds) / np.sqrt(ns)
  \<close>
\<close>

definition count_n :: "npfloat list \<Rightarrow> nat" where
  "count_n temp_list = length temp_list - length (filter (\<lambda>v. v = None) temp_list)"

definition column_lb :: "npfloat list \<Rightarrow> npfloat" where
  "column_lb temp_list =
     (let mu = np_mean (non_nan temp_list);
          n = count_n temp_list;
          sd = np_std (if n > 1 then 1 else 0) (non_nan temp_list)
      in lower_bound mu sd n)"

definition get_stderr_lb_varyinglens :: "real list list \<Rightarrow> npfloat list" where
  "get_stderr_lb_varyinglens x = map column_lb (zip_longest x)"

subsection \<open>Discounted returns\<close>

text \<open>
  Modelled from the spec: \<open>discount_cumsum\<close> of \<open>garage.misc.special\<close> is imported by
  the module and is not among the sources. The spec gives it as the reverse cumulative
  sum with the discount factor, computed back-to-front:
  \<open>returns[t] = reward[t] + discount * returns[t+1]\<close>, \<open>returns[-1] = reward[-1]\<close>.
\<close>

fun discount_cumsum :: "real list \<Rightarrow> real \<Rightarrow> real list" where
  "discount_cumsum [] discount = []"
| "discount_cumsum (r # rs) discount =
     (case discount_cumsum rs discount of
        [] \<Rightarrow> [r]
      | g # gs \<Rightarrow> (r + discount * g) # g # gs)"

subsection \<open>Rollout evaluator\<close>

text \<open>
  A NumPy value that is either a zero-dimensional scalar or a one-dimensional array:
  the standard deviation of the distribution is the scalar \<open>init_std\<close> before the
  first update and a vector afterwards.
\<close>

datatype ndarray = Scalar real | Vec "real list"

fun flatten :: "ndarray \<Rightarrow> real list" where
  "flatten (Scalar s) = [s]"
| "flatten (Vec v) = v"

fun nd_map :: "(real \<Rightarrow> real) \<Rightarrow> ndarray \<Rightarrow> ndarray" where
  "nd_map f (Scalar s) = Scalar (f s)"
| "nd_map f (Vec v) = Vec (map f v)"

text \<open>
  An elementwise binary operation on one-dimensional arrays with NumPy broadcasting: an
  array of length 1 is stretched, other unequal lengths raise \<open>ValueError\<close>.
\<close>

definition broadcast2 ::
  "(real \<Rightarrow> real \<Rightarrow> real) \<Rightarrow> real list \<Rightarrow> real list \<Rightarrow> error + real list" where
  "broadcast2 f a b =
     (if length a = length b then Inr (map2 f a b)
      else if length a = 1 then Inr (map (f (hd a)) b)
      else if length b = 1 then Inr (map (\<lambda>v. f v (hd b)) a)
      else Inl ValueError)"

record path =
  rewards :: "real list"
  returns :: "real list"
  undiscounted_return :: real

record result_path =
  full_paths :: "path list"
  result_undiscounted_return :: npfloat
  result_returns :: "npfloat list"

record worker_args =
  arg_cur_mean :: "real list"
  arg_sample_std :: ndarray
  arg_max_path_length :: int
  arg_discount :: real
  arg_criterion :: string
  arg_n_evals :: int

text \<open>The worker's globals \<open>g\<close>: the parameter values held by \<open>g.policy\<close>.\<close>

record worker_globals =
  g_policy :: "real list"

text \<open>
  \<^verbatim>\<open>
  def _worker_rollout_policy(g, args):
      sample_std = args['sample_std'].flatten()
      cur_mean = args['cur_mean'].flatten()
      n_evals = args['n_evals']
      k = len(cur_mean)
      params = np.random.standard_normal(k) * sample_std + cur_mean
      g.policy.set_param_values(params)
      paths, returns, undiscounted_returns = [], [], []
      for _ in range(n_evals):
          path = rollout(g.env, g.policy, args['max_path_length'])
          path['returns'] = discount_cumsum(path['rewards'], args['discount'])
          path['undiscounted_return'] = sum(path['rewards'])
          paths.append(path)
          returns.append(path['returns'])
          undiscounted_returns.append(path['undiscounted_return'])
      result_path = {'full_paths': paths}
      result_path['undiscounted_return'] = _get_stderr_lb(undiscounted_returns)
      result_path['returns'] = _get_stderr_lb_varyinglens(returns)
      if args['criterion'] == 'samples':
          inc = len(path['rewards'])
      elif args['criterion'] == 'paths':
          inc = 1
      else:
          raise NotImplementedError
      return (params, result_path), inc
  \<close>
  The random draw, the environment and the summation of NumPy (see above) are
  parameters: \<open>noise i\<close> is the \<open>i\<close>-th
  component drawn by \<open>standard_normal\<close>, and \<open>rollout params max_path_length i\<close> is the
  reward sequence of the \<open>i\<close>-th episode run with the policy holding \<open>params\<close>. The
  variable \<open>path\<close> read after the loop is the last episode; it is unbound when the loop
  body never ran.
\<close>

definition run_path :: "real list \<Rightarrow> real \<Rightarrow> path" where
  "run_path rs disc =
     \<lparr>rewards = rs, returns = discount_cumsum rs disc, undiscounted_return = sum_list rs\<rparr>"

definition worker_rollout_policy ::
  "(real list \<Rightarrow> npfloat) \<Rightarrow> (nat \<Rightarrow> real)
     \<Rightarrow> (real list \<Rightarrow> int \<Rightarrow> nat \<Rightarrow> real list) \<Rightarrow> worker_globals \<Rightarrow> worker_args
     \<Rightarrow> worker_globals \<times> (error + ((real list \<times> result_path) \<times> nat))" where
  "worker_rollout_policy add_reduce noise rollout g args =
     (let sample_std = flatten (arg_sample_std args);
          cur_mean = arg_cur_mean args;
          n_evals = arg_n_evals args;
          k = length cur_mean
      in case broadcast2 (*) (map noise [0..<k]) sample_std of
           Inl e \<Rightarrow> (g, Inl e)
         | Inr scaled \<Rightarrow>
            (case broadcast2 (+) scaled cur_mean of
               Inl e \<Rightarrow> (g, Inl e)
             | Inr params \<Rightarrow>
                (let g' = g\<lparr>g_policy := params\<rparr>;
                     paths = map (\<lambda>i. run_path (rollout (g_policy g') (arg_max_path_length args) i)
                                               (arg_discount args))
                                 [0..<nat n_evals];
                     result = \<lparr>full_paths = paths,
                               result_undiscounted_return =
                                 get_stderr_lb add_reduce (map undiscounted_return paths),
                               result_returns =
                                 get_stderr_lb_varyinglens (map returns paths)\<rparr>
                 in (g',
                     if arg_criterion args = ''samples'' then
                       (if paths = [] then Inl UnboundLocalError
                        else Inr ((params, result), length (rewards (last paths))))
                     else if arg_criterion args = ''paths'' then Inr ((params, result), 1)
                     else Inl NotImplementedError))))"

subsection \<open>The algorithm\<close>

record cem =
  n_itr :: int
  max_path_length :: int
  discount :: real
  init_std :: real
  n_samples :: int
  batch_size :: "int option"
  best_frac :: real
  extra_std :: real
  extra_decay_time :: real
  n_evals :: int

text \<open>Python's \<open>int(x)\<close> on a float truncates toward zero.\<close>

definition py_int :: "real \<Rightarrow> int" where
  "py_int r = (if r < 0 then \<lceil>r\<rceil> else \<lfloor>r\<rfloor>)"

text \<open>
  \<open>n_best = max(1, int(self.n_samples * self.best_frac))\<close>: Python converts the integer
  \<open>n_samples\<close> to the nearest float64 (\<open>OverflowError\<close> when there is none), multiplies
  in float64, and \<open>int\<close> raises \<open>OverflowError\<close> on an infinite product.
\<close>

definition float_of_int :: "int \<Rightarrow> error + real" where
  "float_of_int n = (case round64 (of_int n) of None \<Rightarrow> Inl OverflowError | Some f \<Rightarrow> Inr f)"

definition n_best_of :: "cem \<Rightarrow> error + int" where
  "n_best_of self =
     (case float_of_int (n_samples self) of
        Inl e \<Rightarrow> Inl e
      | Inr nf \<Rightarrow>
         (case fmul nf (best_frac self) of
            None \<Rightarrow> Inl OverflowError
          | Some product \<Rightarrow> Inr (max 1 (py_int product))))"

text \<open>
  \<open>extra_var_mult = max(1.0 - itr / self.extra_decay_time, 0)\<close>; Python's division
  raises \<open>ZeroDivisionError\<close> on a zero divisor.
\<close>

definition extra_var_mult :: "cem \<Rightarrow> nat \<Rightarrow> error + real" where
  "extra_var_mult self itr =
     (if extra_decay_time self = 0 then Inl ZeroDivisionError
      else Inr (max (1 - real itr / extra_decay_time self) 0))"

text \<open>
  \<open>sample_std = np.sqrt(np.square(cur_std) + np.square(self.extra_std) * extra_var_mult)\<close>
\<close>

definition compute_sample_std :: "cem \<Rightarrow> real \<Rightarrow> ndarray \<Rightarrow> ndarray" where
  "compute_sample_std self mult cur_std =
     nd_map (\<lambda>s. sqrt (s\<^sup>2 + (extra_std self)\<^sup>2 * mult)) cur_std"

text \<open>
  \<open>argsort\<close> is NumPy's; its default sort is not stable, so the order among equal keys
  is not determined. The model takes it as a parameter; \<open>is_argsort keys p\<close> says that
  \<open>p\<close> is a result NumPy may return for \<open>keys\<close>: a permutation of the indices along
  which the keys ascend, \<open>nan\<close> sorting last.
\<close>

definition nan_le :: "npfloat \<Rightarrow> npfloat \<Rightarrow> bool" where
  "nan_le a b = (case b of None \<Rightarrow> True
                 | Some y \<Rightarrow> (case a of None \<Rightarrow> False | Some x \<Rightarrow> x \<le> y))"

definition is_argsort :: "npfloat list \<Rightarrow> nat list \<Rightarrow> bool" where
  "is_argsort keys p \<longleftrightarrow>
     sort p = [0..<length keys] \<and> sorted_wrt nan_le (map (\<lambda>i. keys ! i) p)"

text \<open>\<open>[path['returns'][0] for path in paths]\<close>: indexing an empty array raises.\<close>

fun first_returns :: "result_path list \<Rightarrow> error + npfloat list" where
  "first_returns [] = Inr []"
| "first_returns (p # ps) =
     (case result_returns p of
        [] \<Rightarrow> Inl IndexError
      | r # _ \<Rightarrow> (case first_returns ps of Inl e \<Rightarrow> Inl e | Inr fs \<Rightarrow> Inr (r # fs)))"

text \<open>Python's slice \<open>a[:n]\<close>.\<close>

definition slice_to :: "int \<Rightarrow> 'a list \<Rightarrow> 'a list" where
  "slice_to n a = (if 0 \<le> n then take (nat n) a else take (length a - nat (- n)) a)"

text \<open>
  \<open>.mean(axis=0)\<close> and \<open>.std(axis=0)\<close> of a two-dimensional array with at least one
  row, given as the list of its rows (all of the length of the first).
\<close>

definition column :: "real list list \<Rightarrow> nat \<Rightarrow> real list" where
  "column rows j = map (\<lambda>r. r ! j) rows"

definition mean_axis0 :: "real list list \<Rightarrow> real list" where
  "mean_axis0 rows =
     map (\<lambda>j. sum_list (column rows j) / real (length rows)) [0..<length (hd rows)]"

definition std_axis0 :: "real list list \<Rightarrow> real list" where
  "std_axis0 rows =
     map (\<lambda>j. let mu = sum_list (column rows j) / real (length rows)
               in sqrt ((\<Sum>v\<leftarrow>column rows j. (v - mu)\<^sup>2) / real (length rows)))
         [0..<length (hd rows)]"

record snapshot =
  snap_itr :: nat
  snap_policy :: "real list"
  snap_cur_mean :: "real list"
  snap_cur_std :: ndarray

text \<open>
  The state of \<open>train\<close>: its local variables \<open>cur_mean\<close> and \<open>cur_std\<close>, the parameter
  values of \<open>self.policy\<close>, and the effects so far: the snapshots saved and the
  (threshold, args) of the calls to \<open>run_collect\<close>.
\<close>

record train_state =
  cur_mean :: "real list"
  cur_std :: ndarray
  policy :: "real list"
  snapshots :: "snapshot list"
  dispatched :: "(int \<times> worker_args) list"

text \<open>
  The update of the distribution in an iteration:
  \<^verbatim>\<open>
  xs = np.asarray([info[0] for info in infos])
  paths = [info[1] for info in infos]
  fs = np.array([path['returns'][0] for path in paths])
  best_inds = (-fs).argsort()[:n_best]
  best_xs = xs[best_inds]
  cur_mean = best_xs.mean(axis=0)
  cur_std = best_xs.std(axis=0)
  best_x = best_xs[0]
  ...
  self.policy.set_param_values(best_x)
  \<close>
  An index outside \<open>xs\<close> and \<open>best_xs[0]\<close> on an empty selection raise \<open>IndexError\<close>.
  The result is (\<open>cur_mean\<close>, \<open>cur_std\<close>, \<open>best_x\<close>).
\<close>

definition update_distribution ::
  "(npfloat list \<Rightarrow> nat list) \<Rightarrow> int \<Rightarrow> (real list \<times> result_path) list
     \<Rightarrow> error + (real list \<times> real list \<times> real list)" where
  "update_distribution argsort n_best infos =
     (let xs = map fst infos;
          paths = map snd infos
      in case first_returns paths of
           Inl e \<Rightarrow> Inl e
         | Inr fs \<Rightarrow>
            (let best_inds = slice_to n_best (argsort (map (map_option uminus) fs))
             in if \<exists>i \<in> set best_inds. length xs \<le> i then Inl IndexError
                else let best_xs = map (\<lambda>i. xs ! i) best_inds
                     in case best_xs of
                          [] \<Rightarrow> Inl IndexError
                        | best_x # _ \<Rightarrow>
                            Inr (mean_axis0 best_xs, std_axis0 best_xs, best_x)))"

text \<open>
  One pass of the loop of \<open>train\<close>. \<open>run_collect itr threshold args\<close> is what the worker
  pool returns for the call made in iteration \<open>itr\<close>. The metrics recorded between the
  update and \<open>set_param_values\<close> do not change the state and raise nothing that the
  update has not raised before.
\<close>

definition train_itr ::
  "cem \<Rightarrow> (npfloat list \<Rightarrow> nat list)
     \<Rightarrow> (nat \<Rightarrow> int \<Rightarrow> worker_args \<Rightarrow> (real list \<times> result_path) list)
     \<Rightarrow> int \<Rightarrow> nat \<Rightarrow> train_state \<Rightarrow> error + train_state" where
  "train_itr self argsort run_collect n_best itr st =
     (case extra_var_mult self itr of
        Inl e \<Rightarrow> Inl e
      | Inr mult \<Rightarrow>
         (let sample_std = compute_sample_std self mult (cur_std st);
              (criterion, threshold) =
                 (case batch_size self of
                    None \<Rightarrow> (''paths'', n_samples self)
                  | Some b \<Rightarrow> (''samples'', b));
              args = \<lparr>arg_cur_mean = cur_mean st, arg_sample_std = sample_std,
                      arg_max_path_length = max_path_length self,
                      arg_discount = discount self, arg_criterion = criterion,
                      arg_n_evals = n_evals self\<rparr>;
              infos = run_collect itr threshold args
          in case update_distribution argsort n_best infos of
               Inl e \<Rightarrow> Inl e
             | Inr (new_mean, new_std, best_x) \<Rightarrow>
                 Inr \<lparr>cur_mean = new_mean, cur_std = Vec new_std, policy = best_x,
                      snapshots = snapshots st @
                        [\<lparr>snap_itr = itr, snap_policy = best_x, snap_cur_mean = new_mean,
                          snap_cur_std = Vec new_std\<rparr>],
                      dispatched = dispatched st @ [(threshold, args)]\<rparr>))"

fun train_loop ::
  "cem \<Rightarrow> (npfloat list \<Rightarrow> nat list)
     \<Rightarrow> (nat \<Rightarrow> int \<Rightarrow> worker_args \<Rightarrow> (real list \<times> result_path) list)
     \<Rightarrow> int \<Rightarrow> nat list \<Rightarrow> train_state \<Rightarrow> error + train_state" where
  "train_loop self argsort run_collect n_best [] st = Inr st"
| "train_loop self argsort run_collect n_best (itr # itrs) st =
     (case train_itr self argsort run_collect n_best itr st of
        Inl e \<Rightarrow> Inl e
      | Inr st' \<Rightarrow> train_loop self argsort run_collect n_best itrs st')"

text \<open>
  \<^verbatim>\<open>
  def train(self):
      ...
      cur_std = self.init_std
      cur_mean = self.policy.get_param_values()
      n_best = max(1, int(self.n_samples * self.best_frac))
      for itr in range(self.n_itr):
          ...
  \<close>
  \<open>policy0\<close> is the parameter vector the policy holds when \<open>train\<close> is called.
\<close>

definition train ::
  "cem \<Rightarrow> (npfloat list \<Rightarrow> nat list)
     \<Rightarrow> (nat \<Rightarrow> int \<Rightarrow> worker_args \<Rightarrow> (real list \<times> result_path) list)
     \<Rightarrow> real list \<Rightarrow> error + train_state" where
  "train self argsort run_collect policy0 =
     (let st = \<lparr>cur_mean = policy0, cur_std = Scalar (init_std self), policy = policy0,
                snapshots = [], dispatched = []\<rparr>
      in case n_best_of self of
           Inl e \<Rightarrow> Inl e
         | Inr n_best \<Rightarrow>
             train_loop self argsort run_collect n_best [0..<nat (n_itr self)] st)"

text \<open>
  The defaults of the constructor; \<open>0.99\<close> and \<open>0.05\<close> are the float64 values that
  Python reads these literals as.
\<close>

definition default_cem :: cem where
  "default_cem =
     \<lparr>n_itr = 500, max_path_length = 500, discount = 4458563631096791 / 2 ^ 52,
      init_std = 1, n_samples = 100, batch_size = None,
      best_frac = 3602879701896397 / 2 ^ 56, extra_std = 1,
      extra_decay_time = 100, n_evals = 1\<rparr>"

text \<open>Concrete inputs on which the theorems below are instantiated.\<close>

definition example_args :: "string \<Rightarrow> worker_args" where
  "example_args c =
     \<lparr>arg_cur_mean = [0, 0], arg_sample_std = Scalar 1, arg_max_path_length = 500,
      arg_discount = 4458563631096791 / 2 ^ 52, arg_criterion = c, arg_n_evals = 2\<rparr>"

definition example_rollout :: "real list \<Rightarrow> int \<Rightarrow> nat \<Rightarrow> real list" where
  "example_rollout params mpl i = replicate (Suc i) 1"

definition example_result :: "real \<Rightarrow> result_path" where
  "example_result v =
     \<lparr>full_paths = [run_path [v] 1],
      result_undiscounted_return = get_stderr_lb sequential_sum [v],
      result_returns = get_stderr_lb_varyinglens [[v]]\<rparr>"

definition example_infos :: "(real list \<times> result_path) list" where
  "example_infos =
     [([3, 5], example_result 3), ([0, 0], example_result 1),
      ([1, 5], example_result 4), ([7, 7], example_result 1)]"

definition example_argsort :: "npfloat list \<Rightarrow> nat list" where
  "example_argsort keys = [2, 0, 1, 3]"

definition example_cem :: cem where
  "example_cem = default_cem\<lparr>n_itr := 2, n_samples := 20, batch_size := Some 4000\<rparr>"

section \<open>Properties\<close>

subsection \<open>Float64 rounding\<close>

lemma round_half_even_of_int: "round_half_even (of_int k) = k"
  by (simp add: round_half_even_def)

lemma round_half_even_le: "x \<le> of_int k \<Longrightarrow> round_half_even x \<le> k"
proof -
  assume a: "x \<le> of_int k"
  show ?thesis
  proof (cases "x = of_int k")
    case True
    then show ?thesis by (simp add: round_half_even_of_int)
  next
    case False
    with a have "x < of_int k" by simp
    then have "\<lfloor>x\<rfloor> < k" by (simp add: floor_less_iff)
    then show ?thesis by (auto simp: round_half_even_def Let_def)
  qed
qed

lemma round_half_even_ge: "of_int k \<le> x \<Longrightarrow> k \<le> round_half_even x"
proof -
  assume "of_int k \<le> x"
  then have "k \<le> \<lfloor>x\<rfloor>" by (simp add: le_floor_iff)
  then show ?thesis by (auto simp: round_half_even_def Let_def)
qed

lemma floor_log2_iff:
  assumes "0 < x"
  shows "\<lfloor>log 2 x\<rfloor> = k \<longleftrightarrow> 2 powi k \<le> x \<and> x < 2 powi (k + 1)"
proof -
  have a: "(2::real) powr (real_of_int k) = 2 powi k"
    by (simp add: powr_real_of_int')
  have "(2::real) powr (real_of_int (k + 1)) = 2 powi (k + 1)"
    by (rule powr_real_of_int') simp_all
  then have b: "(2::real) powr (real_of_int k + 1) = 2 powi (k + 1)"
    by simp
  from assms have "\<lfloor>log 2 x\<rfloor> = k \<longleftrightarrow> 2 powr (real_of_int k) \<le> x \<and> x < 2 powr (real_of_int k + 1)"
    by (simp add: floor_log_eq_powr_iff)
  then show ?thesis unfolding a b .
qed

lemma float_exponent_eq:
  assumes "2 powi e \<le> \<bar>x\<bar>" and "\<bar>x\<bar> < 2 powi (e + 1)" and "- 1022 \<le> e"
  shows "float_exponent x = e"
proof -
  have "(0::real) < 2 powi e" by simp
  with assms(1) have pos: "0 < \<bar>x\<bar>" by linarith
  from assms(1,2) have "\<lfloor>log 2 \<bar>x\<bar>\<rfloor> = e"
    unfolding floor_log2_iff [OF pos] by blast
  with assms(3) show ?thesis by (simp add: float_exponent_def)
qed

lemma float_exponent_bounds:
  assumes "x \<noteq> 0"
  shows "\<bar>x\<bar> < 2 powi (float_exponent x + 1)"
    and "2 powi float_exponent x \<le> \<bar>x\<bar> \<or> float_exponent x = - 1022"
proof -
  define l where "l = \<lfloor>log 2 \<bar>x\<bar>\<rfloor>"
  from assms have pos: "0 < \<bar>x\<bar>" by simp
  have "\<lfloor>log 2 \<bar>x\<bar>\<rfloor> = l" by (simp add: l_def)
  then have b: "2 powi l \<le> \<bar>x\<bar>" "\<bar>x\<bar> < 2 powi (l + 1)"
    unfolding floor_log2_iff [OF pos] by blast+
  have le: "l \<le> float_exponent x"
    by (simp add: float_exponent_def l_def)
  then have "(2::real) powi (l + 1) \<le> 2 powi (float_exponent x + 1)"
    by (intro power_int_increasing) simp_all
  with b(2) show "\<bar>x\<bar> < 2 powi (float_exponent x + 1)" by linarith
  have "float_exponent x = l \<or> float_exponent x = - 1022"
    by (auto simp: float_exponent_def l_def max_def)
  with b(1) show "2 powi float_exponent x \<le> \<bar>x\<bar> \<or> float_exponent x = - 1022"
    by blast
qed

lemma float_exponent_subnormal:
  assumes "x \<noteq> 0" and "\<bar>x\<bar> < 2 powi (- 1022)"
  shows "float_exponent x = - 1022"
proof (rule ccontr)
  assume n: "float_exponent x \<noteq> - 1022"
  have ge: "- 1022 \<le> float_exponent x"
    by (simp add: float_exponent_def)
  from float_exponent_bounds(2) [OF assms(1)] n
  have "2 powi float_exponent x \<le> \<bar>x\<bar>" by blast
  moreover from ge have "(2::real) powi (- 1022) \<le> 2 powi float_exponent x"
    by (intro power_int_increasing) simp_all
  ultimately show False using assms(2) by linarith
qed

lemma float_exponent_mono:
  assumes "y \<noteq> 0" and "\<bar>y\<bar> \<le> \<bar>x\<bar>"
  shows "float_exponent y \<le> float_exponent x"
proof -
  from assms have "log 2 \<bar>y\<bar> \<le> log 2 \<bar>x\<bar>" by simp
  then have "\<lfloor>log 2 \<bar>y\<bar>\<rfloor> \<le> \<lfloor>log 2 \<bar>x\<bar>\<rfloor>" by (rule floor_mono)
  then show ?thesis by (simp add: float_exponent_def)
qed

lemma round_to_grid_nonneg: "0 \<le> x \<Longrightarrow> 0 \<le> round_to_grid x"
proof -
  assume "0 \<le> x"
  then have "of_int 0 \<le> x / 2 powi (float_exponent x - 52)" by simp
  then have "0 \<le> round_half_even (x / 2 powi (float_exponent x - 52))"
    by (rule round_half_even_ge)
  then show ?thesis by (simp add: round_to_grid_def Let_def)
qed

lemma round_to_grid_nonpos: "x \<le> 0 \<Longrightarrow> round_to_grid x \<le> 0"
proof -
  assume "x \<le> 0"
  then have "x / 2 powi (float_exponent x - 52) \<le> of_int 0"
    by (simp add: divide_le_0_iff)
  then have "round_half_even (x / 2 powi (float_exponent x - 52)) \<le> 0"
    by (rule round_half_even_le)
  then show ?thesis
    by (simp add: round_to_grid_def Let_def mult_le_0_iff)
qed

lemma round64_nonneg: "0 \<le> x \<Longrightarrow> round64 x = Some r \<Longrightarrow> 0 \<le> r"
  using round_to_grid_nonneg [of x] by (auto simp: round64_def split: if_splits)

text \<open>A number on the grid of its own binade is left unchanged.\<close>

lemma round_to_grid_exact:
  assumes "x = of_int k * 2 powi q" and "\<bar>k\<bar> < 2 ^ 53" and "- 1074 \<le> q"
  shows "round_to_grid x = x"
proof (cases "x = 0")
  case True
  then show ?thesis by (simp add: round_to_grid_def round_half_even_def)
next
  case False
  define e where "e = float_exponent x"
  have "e - 52 \<le> q"
  proof (rule ccontr)
    assume "\<not> e - 52 \<le> q"
    then have gt: "q + 53 \<le> e" by simp
    with assms(3) have "e \<noteq> - 1022" by simp
    with float_exponent_bounds(2) [OF False] have lo: "2 powi e \<le> \<bar>x\<bar>"
      by (simp add: e_def)
    from assms(2) have "real_of_int \<bar>k\<bar> < 2 ^ 53"
      by (metis of_int_less_numeral_power_cancel_iff)
    then have "\<bar>x\<bar> < 2 ^ 53 * 2 powi q"
      unfolding assms(1) by (simp add: abs_mult)
    also have "\<dots> = 2 powi (q + 53)"
      by (simp add: power_int_add)
    also from gt have "\<dots> \<le> 2 powi e"
      by (intro power_int_increasing) simp_all
    finally show False using lo by simp
  qed
  then obtain n where n: "q = (e - 52) + int n"
    by (metis zle_iff_zadd)
  have "x / 2 powi (e - 52) = of_int k * 2 powi (int n)"
    unfolding assms(1) n by (simp add: power_int_add)
  also have "\<dots> = of_int (k * 2 ^ n)" by simp
  finally have "x / 2 powi (e - 52) = of_int (k * 2 ^ n)" .
  then have "round_half_even (x / 2 powi (e - 52)) = k * 2 ^ n"
    by (simp only: round_half_even_of_int)
  then have "round_to_grid x = of_int (k * 2 ^ n) * 2 powi (e - 52)"
    by (simp add: round_to_grid_def Let_def e_def)
  also have "\<dots> = x"
    unfolding assms(1) n by (simp add: power_int_add)
  finally show ?thesis .
qed

lemma round64_exact:
  assumes "x = of_int k * 2 powi q" and "\<bar>k\<bar> < 2 ^ 53" and "- 1074 \<le> q"
    and "\<bar>x\<bar> < 2 ^ 1024"
  shows "round64 x = Some x"
  using assms(4) round_to_grid_exact [OF assms(1-3)] by (simp add: round64_def)

lemma round64_of_int: "\<bar>k\<bar> < 2 ^ 53 \<Longrightarrow> round64 (of_int k) = Some (of_int k)"
proof -
  assume a: "\<bar>k\<bar> < 2 ^ 53"
  then have "real_of_int \<bar>k\<bar> < 2 ^ 53"
    by (metis of_int_less_numeral_power_cancel_iff)
  also have "(2::real) ^ 53 < 2 ^ 1024"
    by (rule power_strict_increasing) simp_all
  finally have "\<bar>real_of_int k\<bar> < 2 ^ 1024" by simp
  then show ?thesis
    using round64_exact [of "of_int k" k 0] a by simp
qed

lemma round_to_grid_eval:
  assumes "2 powi e \<le> \<bar>x\<bar>" and "\<bar>x\<bar> < 2 powi (e + 1)" and "- 1022 \<le> e"
  shows "round_to_grid x = of_int (round_half_even (x / 2 powi (e - 52))) * 2 powi (e - 52)"
  by (simp add: round_to_grid_def Let_def float_exponent_eq [OF assms])

text \<open>Rounding does not cross a representable number.\<close>

lemma round_to_grid_le_float:
  assumes "y \<le> m" and "0 < m" and "round_to_grid m = m"
  shows "round_to_grid y \<le> m"
proof (cases "0 < y")
  case False
  then have "round_to_grid y \<le> 0" by (simp add: round_to_grid_nonpos)
  with assms(2) show ?thesis by simp
next
  case True
  define ey where "ey = float_exponent y"
  define em where "em = float_exponent m"
  define K where "K = round_half_even (m / 2 powi (em - 52))"
  from True assms(1) have "ey \<le> em"
    unfolding ey_def em_def by (intro float_exponent_mono) simp_all
  then obtain n where n: "em = ey + int n"
    by (metis zle_iff_zadd)
  from assms(3) have m: "m = of_int K * 2 powi (em - 52)"
    by (simp add: round_to_grid_def Let_def em_def K_def)
  have "m / 2 powi (ey - 52) = of_int K * (2 powi (em - 52) / 2 powi (ey - 52))"
    by (subst m) simp
  also have "2 powi (em - 52) / 2 powi (ey - 52) = (2::real) powi (int n)"
    unfolding n by (simp add: power_int_diff [symmetric])
  finally have mi: "m / 2 powi (ey - 52) = of_int (K * 2 ^ n)" by simp
  from assms(1) have "y / 2 powi (ey - 52) \<le> m / 2 powi (ey - 52)"
    by (simp add: divide_right_mono)
  with mi have "round_half_even (y / 2 powi (ey - 52)) \<le> K * 2 ^ n"
    by (simp only: round_half_even_le)
  then have "of_int (round_half_even (y / 2 powi (ey - 52))) * 2 powi (ey - 52)
               \<le> real_of_int (K * 2 ^ n) * 2 powi (ey - 52)"
    by (intro mult_right_mono) (simp_all only: of_int_le_iff, simp)
  also have "\<dots> = m / 2 powi (ey - 52) * 2 powi (ey - 52)"
    by (simp only: mi)
  also have "\<dots> = m" by simp
  finally show ?thesis
    by (simp add: round_to_grid_def Let_def ey_def)
qed

lemma round64_le_float:
  assumes "y \<le> m" and "0 < m" and "round64 m = Some m" and "round64 y = Some r"
  shows "r \<le> m"
proof -
  from assms(2,3) have g: "round_to_grid m = m"
    by (auto simp: round64_def split: if_splits)
  from round_to_grid_le_float [OF assms(1,2) g] assms(2,4) show ?thesis
    by (auto simp: round64_def split: if_splits)
qed

lemma binade_top: "(2::real) ^ 53 * 2 powi (e - 52) = 2 powi (e + 1)"
proof -
  have "e + 1 = 53 + (e - 52)" by simp
  then have "(2::real) powi (e + 1) = 2 powi (53 + (e - 52))" by (rule arg_cong)
  also have "\<dots> = 2 powi 53 * 2 powi (e - 52)"
    by (rule power_int_add) simp
  finally show ?thesis by simp
qed

lemma round_to_grid_idem: "round_to_grid (round_to_grid x) = round_to_grid x"
proof (cases "x = 0")
  case True
  then show ?thesis by (simp add: round_to_grid_def round_half_even_def)
next
  case False
  define e where "e = float_exponent x"
  define u :: real where "u = 2 powi (e - 52)"
  define K where "K = round_half_even (x / u)"
  have u: "0 < u" by (simp add: u_def)
  have r: "round_to_grid x = of_int K * u"
    by (simp add: round_to_grid_def Let_def e_def u_def K_def)
  have e: "- 1022 \<le> e" by (simp add: e_def float_exponent_def)
  from float_exponent_bounds(1) [OF False] have "\<bar>x\<bar> < 2 powi (e + 1)"
    by (simp add: e_def)
  also have "\<dots> = 2 ^ 53 * u"
    by (simp only: u_def binade_top)
  finally have "\<bar>x\<bar> / u < 2 ^ 53"
    using u by (simp add: pos_divide_less_eq)
  then have "\<bar>x / u\<bar> < 2 ^ 53" using u by simp
  then have "x / u \<le> 2 ^ 53" and "- (2 ^ 53) \<le> x / u"
    by linarith+
  then have "x / u \<le> of_int (2 ^ 53)" and "of_int (- (2 ^ 53)) \<le> x / u"
    by simp_all
  then have "K \<le> 2 ^ 53" and "- (2 ^ 53) \<le> K"
    unfolding K_def by (simp_all only: round_half_even_le round_half_even_ge)
  then have "\<bar>K\<bar> < 2 ^ 53 \<or> K = 2 ^ 53 \<or> K = - (2 ^ 53)" by linarith
  then show ?thesis
  proof (elim disjE)
    assume "\<bar>K\<bar> < 2 ^ 53"
    from round_to_grid_exact [OF _ this, of "of_int K * u" "e - 52"] e
    show ?thesis by (simp add: r u_def)
  next
    assume k: "K = 2 ^ 53"
    have "of_int K * u = of_int 1 * 2 powi (e + 1)"
      using binade_top [of e] by (simp add: k u_def)
    from round_to_grid_exact [OF this] e show ?thesis by (simp add: r)
  next
    assume k: "K = - (2 ^ 53)"
    have "of_int K * u = of_int (- 1) * 2 powi (e + 1)"
      using binade_top [of e] by (simp add: k u_def)
    from round_to_grid_exact [OF this] e show ?thesis by (simp add: r)
  qed
qed

lemma round64_idem: "round64 x = Some r \<Longrightarrow> round64 r = Some r"
  using round_to_grid_idem [of x] by (auto simp: round64_def split: if_splits)

lemma round64_zero: "round64 0 = Some 0"
  by (simp add: round64_def)

lemma round64_one: "round64 1 = Some 1"
  using round64_of_int [of 1] by simp

lemma round_to_grid_top: "round_to_grid (2 ^ 1023) = 2 ^ 1023"
  using round_to_grid_exact [of "2 ^ 1023" 1 1023] by simp

lemma round64_bounded:
  assumes "0 \<le> y" and "y \<le> 2 ^ 1023"
  shows "round64 y = Some (round_to_grid y)"
proof -
  have "round_to_grid y \<le> 2 ^ 1023"
    using round_to_grid_le_float [OF assms(2) _ round_to_grid_top] by simp
  moreover have "(2::real) ^ 1023 < 2 ^ 1024"
    by (rule power_strict_increasing) simp_all
  moreover have "0 \<le> round_to_grid y"
    using assms(1) by (rule round_to_grid_nonneg)
  ultimately have "\<bar>round_to_grid y\<bar> < 2 ^ 1024" by linarith
  then show ?thesis
    by (simp add: round64_def round_to_grid_def round_half_even_def)
qed

lemma round_to_grid_ge_one:
  assumes "1 \<le> y"
  shows "1 \<le> round_to_grid y"
proof -
  define e where "e = float_exponent y"
  from assms have ne: "y \<noteq> 0" by simp
  have "float_exponent 1 \<le> float_exponent y"
    using assms by (intro float_exponent_mono) simp_all
  moreover have "float_exponent 1 = 0"
    by (rule float_exponent_eq) simp_all
  ultimately have e0: "0 \<le> e" by (simp add: e_def)
  then have "e \<noteq> - 1022" by simp
  with float_exponent_bounds(2) [OF ne] assms have lo: "2 powi e \<le> y"
    by (simp add: e_def)
  have "(2::real) powi e = 2 powi (52 + (e - 52))" by simp
  also have "\<dots> = 2 powi 52 * 2 powi (e - 52)"
    by (rule power_int_add) simp
  finally have sp: "(2::real) powi e = of_int (2 ^ 52) * 2 powi (e - 52)" by simp
  then have "real_of_int (2 ^ 52) = 2 powi e / 2 powi (e - 52)" by simp
  also from lo have "\<dots> \<le> y / 2 powi (e - 52)"
    by (simp add: divide_right_mono)
  finally have "2 ^ 52 \<le> round_half_even (y / 2 powi (e - 52))"
    by (rule round_half_even_ge)
  then have "real_of_int (2 ^ 52) * 2 powi (e - 52)
               \<le> real_of_int (round_half_even (y / 2 powi (e - 52))) * 2 powi (e - 52)"
    by (intro mult_right_mono) (simp_all only: of_int_le_iff, simp)
  with sp have "2 powi e \<le> round_to_grid y"
    by (simp add: round_to_grid_def Let_def e_def)
  moreover from e0 have "(2::real) powi 0 \<le> 2 powi e"
    by (intro power_int_increasing) simp_all
  ultimately show ?thesis by simp
qed

lemma fsqrt_count:
  assumes "1 \<le> n" and "real n \<le> 2 ^ 1023"
  shows "\<exists>q. fsqrt (real n) = Some q \<and> 1 \<le> q"
proof -
  from assms(1) have one: "1 \<le> sqrt (real n)" by simp
  from assms(1) have "sqrt (real n) \<le> real n"
    by (metis of_nat_1 of_nat_le_iff of_nat_0_le_iff real_sqrt_le_iff real_sqrt_abs2
        abs_of_nonneg power2_eq_square mult_left_mono mult.right_neutral)
  with assms(2) have "sqrt (real n) \<le> 2 ^ 1023" by linarith
  with one have "round64 (sqrt (real n)) = Some (round_to_grid (sqrt (real n)))"
    by (intro round64_bounded) simp_all
  with round_to_grid_ge_one [OF one] show ?thesis
    by (simp add: fsqrt_def)
qed

subsection \<open>The scalar estimator\<close>

lemma those_replicate: "those (replicate n (Some v)) = Some (replicate n v)"
  by (induction n) simp_all

lemma get_stderr_lb_unfold:
  "get_stderr_lb add_reduce x = do {
     s \<leftarrow> add_reduce x;
     mean \<leftarrow> fdiv s (real (length x));
     sq \<leftarrow> those (map (\<lambda>v. do { d \<leftarrow> fsub v mean; fmul d d }) x);
     ssum \<leftarrow> add_reduce sq;
     var \<leftarrow> fdiv ssum (real (length x - (if length x > 1 then 1 else 0)));
     sd \<leftarrow> fsqrt var;
     rootn \<leftarrow> fsqrt (real (length x));
     stderr \<leftarrow> fdiv sd rootn;
     fsub mean stderr
   }"
proof (cases "add_reduce x")
  case None
  then show ?thesis
    by (simp add: get_stderr_lb_def np_mean64_def)
next
  case (Some s)
  show ?thesis
  proof (cases "fdiv s (real (length x))")
    case None
    with Some show ?thesis
      by (simp add: get_stderr_lb_def np_mean64_def)
  next
    case (Some mean)
    with \<open>add_reduce x = Some s\<close> show ?thesis
      by (simp add: get_stderr_lb_def np_mean64_def np_std64_def)
  qed
qed

text \<open>The estimate is not above the float64 mean.\<close>

lemma get_stderr_lb_le_mean:
  assumes mean: "np_mean64 add_reduce x = Some m"
    and pos: "0 < m" and fl: "round64 m = Some m"
    and res: "get_stderr_lb add_reduce x = Some r"
  shows "r \<le> m"
proof -
  from res mean obtain sd rootn stderr
    where sd: "np_std64 add_reduce (if length x > 1 then 1 else 0) x = Some sd"
      and rootn: "fsqrt (real (length x)) = Some rootn"
      and stderr: "fdiv sd rootn = Some stderr"
      and r: "fsub m stderr = Some r"
    by (auto simp: get_stderr_lb_def split: Option.bind_splits)
  from sd obtain var where "fsqrt var = Some sd"
    by (auto simp: np_std64_def split: Option.bind_splits)
  then have sd0: "0 \<le> sd"
    by (auto simp: fsqrt_def intro: round64_nonneg [of "sqrt var"] split: if_splits)
  from rootn have rootn0: "0 \<le> rootn"
    by (auto simp: fsqrt_def intro: round64_nonneg [of "sqrt (real (length x))"]
        split: if_splits)
  from stderr sd0 rootn0 have "0 \<le> stderr"
    by (auto simp: fdiv_def intro: round64_nonneg [of "sd / rootn"] split: if_splits)
  then have "m - stderr \<le> m" by simp
  from round64_le_float [OF this pos fl] r show ?thesis
    by (simp add: fsub_def)
qed

lemma float_0_7: "round64 (3152519739159347 / 2 ^ 52) = Some (3152519739159347 / 2 ^ 52)"
  using round64_exact [of "3152519739159347 / 2 ^ 52" 3152519739159347 "- 52"]
  by simp

lemma sum_0_7:
  "sequential_sum [3152519739159347 / 2 ^ 52, 3152519739159347 / 2 ^ 52,
                   3152519739159347 / 2 ^ 52]
     = Some (1182194902184755 / 2 ^ 49)"
proof -
  have a: "round64 (3152519739159347 / 2 ^ 51) = Some (3152519739159347 / 2 ^ 51)"
    using round64_exact [of "3152519739159347 / 2 ^ 51" 3152519739159347 "- 51"]
    by simp
  have "round_to_grid (9457559217478041 / 2 ^ 52) = 1182194902184755 / 2 ^ 49"
    by (subst round_to_grid_eval [where e = 1]) (simp_all add: round_half_even_def)
  then have b: "round64 (9457559217478041 / 2 ^ 52) = Some (1182194902184755 / 2 ^ 49)"
    by (simp add: round64_def)
  have c: "3152519739159347 / 2 ^ 52 + 3152519739159347 / 2 ^ 52
             = (3152519739159347 / 2 ^ 51 :: real)"
    by simp
  have d: "3152519739159347 / 2 ^ 51 + 3152519739159347 / 2 ^ 52
             = (9457559217478041 / 2 ^ 52 :: real)"
    by simp
  show ?thesis
    unfolding sequential_sum_def foldl.simps fadd_def
    by (simp only: bind.simps add_0 float_0_7 c a d b)
qed

lemma mean_0_7:
  "np_mean64 sequential_sum [3152519739159347 / 2 ^ 52, 3152519739159347 / 2 ^ 52,
                             3152519739159347 / 2 ^ 52]
     = Some (6305039478318693 / 2 ^ 53)"
proof -
  have "round_to_grid (1182194902184755 / 2 ^ 49 / 3) = 6305039478318693 / 2 ^ 53"
    by (subst round_to_grid_eval [where e = "- 1"]) (simp_all add: round_half_even_def)
  then have "round64 (1182194902184755 / 2 ^ 49 / 3) = Some (6305039478318693 / 2 ^ 53)"
    by (simp add: round64_def)
  then show ?thesis
    unfolding np_mean64_def sum_0_7 by (simp add: fdiv_def)
qed

text \<open>
  C2 (as stated, refuted). The batch holds three times the float64 value \<open>0.7\<close>. Its
  float64 sum is rounded, the mean is one unit in the last place below \<open>0.7\<close>, and the
  estimator does not return \<open>0.7\<close>.
\<close>

theorem get_stderr_lb_equal_values_counterexample:
  "round64 (3152519739159347 / 2 ^ 52) = Some (3152519739159347 / 2 ^ 52)
   \<and> get_stderr_lb sequential_sum
        [3152519739159347 / 2 ^ 52, 3152519739159347 / 2 ^ 52, 3152519739159347 / 2 ^ 52]
       \<noteq> Some (3152519739159347 / 2 ^ 52)"
proof -
  have fl: "round64 (6305039478318693 / 2 ^ 53) = Some (6305039478318693 / 2 ^ 53)"
    using round64_exact [of "6305039478318693 / 2 ^ 53" 6305039478318693 "- 53"]
    by simp
  have "get_stderr_lb sequential_sum
        [3152519739159347 / 2 ^ 52, 3152519739159347 / 2 ^ 52, 3152519739159347 / 2 ^ 52]
       \<noteq> Some (3152519739159347 / 2 ^ 52)"
  proof
    assume "get_stderr_lb sequential_sum
        [3152519739159347 / 2 ^ 52, 3152519739159347 / 2 ^ 52, 3152519739159347 / 2 ^ 52]
       = Some (3152519739159347 / 2 ^ 52)"
    from get_stderr_lb_le_mean [OF mean_0_7 _ fl this] show False by simp
  qed
  with float_0_7 show ?thesis by blast
qed

text \<open>
  C2 (amended). For a batch \<open>x\<close> of \<open>M \<ge> 1\<close> float64 values the estimator returns the
  float64 result of \<open>mean - std / sqrt(M)\<close>: the mean is the rounded sum divided by
  \<open>M\<close>, the standard deviation is the square root of the summed squared deviations
  divided by \<open>M - 1\<close> when \<open>M > 1\<close> and by \<open>M\<close> when \<open>M = 1\<close>, every operation
  rounded. For \<open>M = 1\<close> it returns the single value unchanged. For \<open>M \<ge> 2\<close> equal
  values it returns that value whenever the float64 mean of the batch is that value.
  The summation need only leave a single element unchanged and add zeros to zero.
\<close>

theorem get_stderr_lb_contract:
  fixes x :: "real list"
  assumes "1 \<le> length x"
  shows "get_stderr_lb add_reduce x = do {
           s \<leftarrow> add_reduce x;
           mean \<leftarrow> fdiv s (real (length x));
           sq \<leftarrow> those (map (\<lambda>v. do { d \<leftarrow> fsub v mean; fmul d d }) x);
           ssum \<leftarrow> add_reduce sq;
           var \<leftarrow> fdiv ssum (if length x > 1 then real (length x) - 1 else real (length x));
           sd \<leftarrow> fsqrt var;
           rootn \<leftarrow> fsqrt (real (length x));
           stderr \<leftarrow> fdiv sd rootn;
           fsub mean stderr
         }
         \<and> (length x = 1 \<and> round64 (hd x) = Some (hd x) \<and> add_reduce x = Some (hd x)
              \<and> add_reduce [0] = Some 0
              \<longrightarrow> get_stderr_lb add_reduce x = Some (hd x))
         \<and> (2 \<le> length x \<and> real (length x) \<le> 2 ^ 1023 \<and> (\<forall>v \<in> set x. v = c)
              \<and> round64 c = Some c \<and> np_mean64 add_reduce x = Some c
              \<and> add_reduce (replicate (length x) 0) = Some 0
              \<longrightarrow> get_stderr_lb add_reduce x = Some c)"
proof -
  have div: "real (length x - (if length x > 1 then 1 else 0))
               = (if length x > 1 then real (length x) - 1 else real (length x))"
    by (simp add: of_nat_diff)
  have formula: "get_stderr_lb add_reduce x = do {
           s \<leftarrow> add_reduce x;
           mean \<leftarrow> fdiv s (real (length x));
           sq \<leftarrow> those (map (\<lambda>v. do { d \<leftarrow> fsub v mean; fmul d d }) x);
           ssum \<leftarrow> add_reduce sq;
           var \<leftarrow> fdiv ssum (if length x > 1 then real (length x) - 1 else real (length x));
           sd \<leftarrow> fsqrt var;
           rootn \<leftarrow> fsqrt (real (length x));
           stderr \<leftarrow> fdiv sd rootn;
           fsub mean stderr
         }"
    by (subst get_stderr_lb_unfold) (simp only: div)
  have single: "get_stderr_lb add_reduce x = Some (hd x)"
    if h: "length x = 1 \<and> round64 (hd x) = Some (hd x) \<and> add_reduce x = Some (hd x)
              \<and> add_reduce [0] = Some 0"
  proof -
    from h obtain v where x: "x = [v]" by (cases x) auto
    with h have v: "round64 v = Some v" "add_reduce [v] = Some v" "add_reduce [0] = Some 0"
      by simp_all
    show ?thesis
      unfolding get_stderr_lb_unfold x
      by (simp add: v fdiv_def fsub_def fmul_def fsqrt_def round64_zero round64_one)
  qed
  have equal: "get_stderr_lb add_reduce x = Some c"
    if h: "2 \<le> length x \<and> real (length x) \<le> 2 ^ 1023 \<and> (\<forall>v \<in> set x. v = c)
              \<and> round64 c = Some c \<and> np_mean64 add_reduce x = Some c
              \<and> add_reduce (replicate (length x) 0) = Some 0"
  proof -
    from h have rep: "x = replicate (length x) c"
      by (simp add: replicate_length_same)
    from h have M: "2 \<le> length x" "real (length x) \<le> 2 ^ 1023" by simp_all
    from h have c: "round64 c = Some c" by simp
    from h obtain s where s1: "add_reduce x = Some s"
      and s2: "fdiv s (real (length x)) = Some c"
      by (auto simp: np_mean64_def split: Option.bind_splits)
    from h have z: "add_reduce (replicate (length x) 0) = Some 0" by simp
    from fsqrt_count [of "length x"] M obtain q
      where q: "fsqrt (real (length x)) = Some q" and q1: "1 \<le> q"
      by auto
    have "those (map (\<lambda>v. do { d \<leftarrow> fsub v c; fmul d d }) (replicate (length x) c))
            = Some (replicate (length x) 0)"
      by (simp add: fsub_def fmul_def round64_zero those_replicate)
    with rep have sq: "those (map (\<lambda>v. do { d \<leftarrow> fsub v c; fmul d d }) x)
                         = Some (replicate (length x) 0)"
      by simp
    from M have var: "fdiv 0 (real (length x - (if length x > 1 then 1 else 0))) = Some 0"
      by (simp add: fdiv_def round64_zero)
    have sd: "fsqrt 0 = Some 0"
      by (simp add: fsqrt_def round64_zero)
    from q1 have st: "fdiv 0 q = Some 0"
      by (simp add: fdiv_def round64_zero)
    from c have fin: "fsub c 0 = Some c"
      by (simp add: fsub_def)
    show ?thesis
      unfolding get_stderr_lb_unfold
      by (simp only: s1 s2 sq z var sd q st fin bind.simps)
  qed
  from formula single equal show ?thesis by blast
qed

theorem get_stderr_lb_contract_witness:
  "1 \<le> length [5 :: real] \<and> round64 5 = Some 5 \<and> sequential_sum [5] = Some 5
   \<and> sequential_sum [0] = Some 0
   \<and> get_stderr_lb sequential_sum [5] = Some 5
   \<and> np_mean64 sequential_sum [2, 2] = Some 2
   \<and> sequential_sum (replicate 2 0) = Some 0
   \<and> get_stderr_lb sequential_sum [2, 2] = Some 2"
proof -
  have r: "round64 5 = Some 5" "round64 2 = Some 2" "round64 4 = Some 4"
    using round64_of_int [of 5] round64_of_int [of 2] round64_of_int [of 4] by simp_all
  have s5: "sequential_sum [5] = Some 5"
    by (simp add: sequential_sum_def fadd_def r)
  have s0: "sequential_sum [0] = Some 0" "sequential_sum (replicate 2 0) = Some 0"
    by (simp_all add: sequential_sum_def fadd_def round64_zero numeral_2_eq_2)
  have m2: "np_mean64 sequential_sum [2, 2] = Some 2"
    by (simp add: np_mean64_def sequential_sum_def fadd_def fdiv_def r round64_one)
  have a: "get_stderr_lb sequential_sum [5] = Some 5"
    using get_stderr_lb_contract [of "[5]" sequential_sum 0, THEN conjunct2, THEN conjunct1]
      r s5 s0
    by simp
  have b: "get_stderr_lb sequential_sum [2, 2] = Some 2"
    using get_stderr_lb_contract [of "[2, 2]" sequential_sum 2, THEN conjunct2, THEN conjunct2]
      r m2 s0
    by (simp add: numeral_2_eq_2)
  from r s5 s0 m2 a b show ?thesis by simp
qed

subsection \<open>The varying-length estimator\<close>














subsection \<open>Discounted returns\<close>







subsection \<open>Rollout evaluator\<close>

lemma broadcast_draw:
  assumes "length sd = k \<or> length sd = 1"
  shows "\<exists>scaled. broadcast2 (*) (map noise [0..<k]) sd = Inr scaled \<and> length scaled = k"
  using assms by (auto simp: broadcast2_def)

lemma broadcast_same: "length a = length b \<Longrightarrow> \<exists>c. broadcast2 f a b = Inr c"
  by (simp add: broadcast2_def)

lemma worker_result:
  assumes "length (flatten (arg_sample_std args)) = length (arg_cur_mean args)
           \<or> length (flatten (arg_sample_std args)) = 1"
  shows "\<exists>scaled params paths.
           broadcast2 (*) (map noise [0..<length (arg_cur_mean args)])
             (flatten (arg_sample_std args)) = Inr scaled
           \<and> broadcast2 (+) scaled (arg_cur_mean args) = Inr params
           \<and> length paths = nat (arg_n_evals args)
           \<and> (paths \<noteq> [] \<longrightarrow>
                rewards (last paths)
                  = rollout params (arg_max_path_length args) (nat (arg_n_evals args) - 1))
           \<and> worker_rollout_policy add_reduce noise rollout g args =
                (g\<lparr>g_policy := params\<rparr>,
                 if arg_criterion args = ''samples'' then
                   (if paths = [] then Inl UnboundLocalError
                    else Inr ((params,
                           \<lparr>full_paths = paths,
                            result_undiscounted_return =
                              get_stderr_lb add_reduce (map undiscounted_return paths),
                            result_returns = get_stderr_lb_varyinglens (map returns paths)\<rparr>),
                           length (rewards (last paths))))
                 else if arg_criterion args = ''paths''
                   then Inr ((params,
                           \<lparr>full_paths = paths,
                            result_undiscounted_return =
                              get_stderr_lb add_reduce (map undiscounted_return paths),
                            result_returns = get_stderr_lb_varyinglens (map returns paths)\<rparr>),
                           1)
                 else Inl NotImplementedError)"
proof -
  from broadcast_draw [OF assms] obtain scaled
    where sc: "broadcast2 (*) (map noise [0..<length (arg_cur_mean args)])
                 (flatten (arg_sample_std args)) = Inr scaled"
      and len: "length scaled = length (arg_cur_mean args)"
    by blast
  from broadcast_same [OF len] obtain params
    where pa: "broadcast2 (+) scaled (arg_cur_mean args) = Inr params"
    by blast
  define paths where
    "paths = map (\<lambda>i. run_path (rollout params (arg_max_path_length args) i) (arg_discount args))
                 [0..<nat (arg_n_evals args)]"
  have l: "length paths = nat (arg_n_evals args)"
    by (simp add: paths_def)
  have la: "rewards (last paths)
              = rollout params (arg_max_path_length args) (nat (arg_n_evals args) - 1)"
    if "paths \<noteq> []"
  proof -
    from that l have "0 < nat (arg_n_evals args)"
      by (metis length_greater_0_conv)
    then show ?thesis
      by (simp add: paths_def last_map last_upt run_path_def)
  qed
  have "worker_rollout_policy add_reduce noise rollout g args =
                (g\<lparr>g_policy := params\<rparr>,
                 if arg_criterion args = ''samples'' then
                   (if paths = [] then Inl UnboundLocalError
                    else Inr ((params,
                           \<lparr>full_paths = paths,
                            result_undiscounted_return =
                              get_stderr_lb add_reduce (map undiscounted_return paths),
                            result_returns = get_stderr_lb_varyinglens (map returns paths)\<rparr>),
                           length (rewards (last paths))))
                 else if arg_criterion args = ''paths''
                   then Inr ((params,
                           \<lparr>full_paths = paths,
                            result_undiscounted_return =
                              get_stderr_lb add_reduce (map undiscounted_return paths),
                            result_returns = get_stderr_lb_varyinglens (map returns paths)\<rparr>),
                           1)
                 else Inl NotImplementedError)"
    unfolding paths_def
    by (simp add: worker_rollout_policy_def Let_def sc pa)
  with sc pa l la show ?thesis by blast
qed

text \<open>
  C6 (as stated, refuted). With the unknown tag \<open>steps\<close> the task does not fail
  immediately: when it fails, the policy that held \<open>[9, 9]\<close> holds the sampled
  parameters \<open>[0, 0]\<close>.
\<close>

theorem worker_fails_late_counterexample:
  "worker_rollout_policy sequential_sum (\<lambda>_. 0) example_rollout \<lparr>g_policy = [9, 9]\<rparr>
     (example_args ''steps'') = (\<lparr>g_policy = [0, 0]\<rparr>, Inl NotImplementedError)
   \<and> \<lparr>g_policy = [0, 0]\<rparr> \<noteq> \<lparr>g_policy = [9, 9 :: real]\<rparr>"
  by (simp add: worker_rollout_policy_def example_args_def broadcast2_def Let_def
      upt_rec numeral_2_eq_2)

text \<open>
  C6 (amended). For arguments whose shapes NumPy can broadcast (\<open>sample_std\<close> a scalar or
  of the length of \<open>cur_mean\<close>) the task draws the parameters and installs them into the
  policy, whatever the criterion tag. With criterion \<open>samples\<close> and at least one
  evaluation, it returns as increment the length of the reward sequence of the last
  rollout; with criterion \<open>paths\<close> it returns the increment 1; with any other criterion
  it returns nothing and fails with \<open>NotImplementedError\<close>, not immediately but after the
  sampled parameters have been installed in the policy.
\<close>

theorem worker_increment:
  assumes "length (flatten (arg_sample_std args)) = length (arg_cur_mean args)
           \<or> length (flatten (arg_sample_std args)) = 1"
  shows "\<exists>scaled params.
           broadcast2 (*) (map noise [0..<length (arg_cur_mean args)])
             (flatten (arg_sample_std args)) = Inr scaled
           \<and> broadcast2 (+) scaled (arg_cur_mean args) = Inr params
           \<and> fst (worker_rollout_policy add_reduce noise rollout g args)
               = g\<lparr>g_policy := params\<rparr>
           \<and> (arg_criterion args = ''samples'' \<and> 1 \<le> arg_n_evals args \<longrightarrow>
                (\<exists>result.
                   snd (worker_rollout_policy add_reduce noise rollout g args)
                     = Inr ((params, result), length (rewards (last (full_paths result))))
                   \<and> length (full_paths result) = nat (arg_n_evals args)
                   \<and> rewards (last (full_paths result))
                       = rollout params (arg_max_path_length args)
                           (nat (arg_n_evals args) - 1)))
           \<and> (arg_criterion args = ''paths'' \<longrightarrow>
                (\<exists>result. snd (worker_rollout_policy add_reduce noise rollout g args)
                            = Inr ((params, result), 1)))
           \<and> (arg_criterion args \<noteq> ''samples'' \<and> arg_criterion args \<noteq> ''paths'' \<longrightarrow>
                worker_rollout_policy add_reduce noise rollout g args
                  = (g\<lparr>g_policy := params\<rparr>, Inl NotImplementedError))"
proof -
  from worker_result [OF assms, of noise rollout add_reduce g] obtain scaled params paths
    where sc: "broadcast2 (*) (map noise [0..<length (arg_cur_mean args)])
                 (flatten (arg_sample_std args)) = Inr scaled"
      and pa: "broadcast2 (+) scaled (arg_cur_mean args) = Inr params"
      and l: "length paths = nat (arg_n_evals args)"
      and la: "paths \<noteq> [] \<longrightarrow> rewards (last paths)
                  = rollout params (arg_max_path_length args) (nat (arg_n_evals args) - 1)"
      and w: "worker_rollout_policy add_reduce noise rollout g args =
                (g\<lparr>g_policy := params\<rparr>,
                 if arg_criterion args = ''samples'' then
                   (if paths = [] then Inl UnboundLocalError
                    else Inr ((params,
                           \<lparr>full_paths = paths,
                            result_undiscounted_return =
                              get_stderr_lb add_reduce (map undiscounted_return paths),
                            result_returns = get_stderr_lb_varyinglens (map returns paths)\<rparr>),
                           length (rewards (last paths))))
                 else if arg_criterion args = ''paths''
                   then Inr ((params,
                           \<lparr>full_paths = paths,
                            result_undiscounted_return =
                              get_stderr_lb add_reduce (map undiscounted_return paths),
                            result_returns = get_stderr_lb_varyinglens (map returns paths)\<rparr>),
                           1)
                 else Inl NotImplementedError)"
    by blast
  define result where "result = \<lparr>full_paths = paths,
                   result_undiscounted_return =
                     get_stderr_lb add_reduce (map undiscounted_return paths),
                   result_returns = get_stderr_lb_varyinglens (map returns paths)\<rparr>"
  have fp: "full_paths result = paths" by (simp add: result_def)
  from w have st: "fst (worker_rollout_policy add_reduce noise rollout g args)
                     = g\<lparr>g_policy := params\<rparr>"
    by simp
  have a: "\<exists>result.
               snd (worker_rollout_policy add_reduce noise rollout g args)
                 = Inr ((params, result), length (rewards (last (full_paths result))))
               \<and> length (full_paths result) = nat (arg_n_evals args)
               \<and> rewards (last (full_paths result))
                   = rollout params (arg_max_path_length args) (nat (arg_n_evals args) - 1)"
    if "arg_criterion args = ''samples''" and "1 \<le> arg_n_evals args"
  proof -
    from that l have ne: "paths \<noteq> []" by auto
    with w that have "snd (worker_rollout_policy add_reduce noise rollout g args)
                 = Inr ((params, result), length (rewards (last (full_paths result))))"
      by (simp add: result_def)
    with l la ne fp show ?thesis by auto
  qed
  have b: "\<exists>result. snd (worker_rollout_policy add_reduce noise rollout g args)
                      = Inr ((params, result), 1)"
    if "arg_criterion args = ''paths''"
    using w that by simp
  have c: "worker_rollout_policy add_reduce noise rollout g args
             = (g\<lparr>g_policy := params\<rparr>, Inl NotImplementedError)"
    if "arg_criterion args \<noteq> ''samples''" and "arg_criterion args \<noteq> ''paths''"
    using w that by simp
  from sc pa st a b c show ?thesis by blast
qed

theorem worker_increment_witness:
  "length (flatten (arg_sample_std (example_args ''samples''))) = 1
   \<and> 1 \<le> arg_n_evals (example_args ''samples'')
   \<and> (\<exists>out. snd (worker_rollout_policy sequential_sum (\<lambda>_. 0) example_rollout
                     \<lparr>g_policy = [9, 9]\<rparr> (example_args ''samples'')) = Inr (out, 2))
   \<and> (\<exists>out. snd (worker_rollout_policy sequential_sum (\<lambda>_. 0) example_rollout
                     \<lparr>g_policy = [9, 9]\<rparr> (example_args ''paths'')) = Inr (out, 1))
   \<and> worker_rollout_policy sequential_sum (\<lambda>_. 0) example_rollout \<lparr>g_policy = [9, 9]\<rparr>
       (example_args ''steps'') = (\<lparr>g_policy = [0, 0]\<rparr>, Inl NotImplementedError)"
proof -
  have shp: "length (flatten (arg_sample_std (example_args c))) = length (arg_cur_mean (example_args c))
           \<or> length (flatten (arg_sample_std (example_args c))) = 1" for c
    by (simp add: example_args_def)
  have draw: "broadcast2 (*) (map (\<lambda>_. 0) [0..<length (arg_cur_mean (example_args c))])
                (flatten (arg_sample_std (example_args c))) = Inr scaled
              \<and> broadcast2 (+) scaled (arg_cur_mean (example_args c)) = Inr params
              \<longleftrightarrow> scaled = [0, 0] \<and> params = [0, 0]" for c scaled params
    by (auto simp: example_args_def broadcast2_def upt_rec numeral_2_eq_2)
  note s = worker_increment [OF shp, of "\<lambda>_. 0" "''samples''" sequential_sum example_rollout
      "\<lparr>g_policy = [9, 9]\<rparr>"]
  note p = worker_increment [OF shp, of "\<lambda>_. 0" "''paths''" sequential_sum example_rollout
      "\<lparr>g_policy = [9, 9]\<rparr>"]
  note o = worker_increment [OF shp, of "\<lambda>_. 0" "''steps''" sequential_sum example_rollout
      "\<lparr>g_policy = [9, 9]\<rparr>"]
  have a: "\<exists>out. snd (worker_rollout_policy sequential_sum (\<lambda>_. 0) example_rollout
                     \<lparr>g_policy = [9, 9]\<rparr> (example_args ''samples'')) = Inr (out, 2)"
    using s by (auto simp: example_args_def example_rollout_def)
  have b: "\<exists>out. snd (worker_rollout_policy sequential_sum (\<lambda>_. 0) example_rollout
                     \<lparr>g_policy = [9, 9]\<rparr> (example_args ''paths'')) = Inr (out, 1)"
    using p by (auto simp: example_args_def)
  from o obtain scaled params
    where "broadcast2 (*) (map (\<lambda>_. 0) [0..<length (arg_cur_mean (example_args ''steps''))])
                (flatten (arg_sample_std (example_args ''steps''))) = Inr scaled
              \<and> broadcast2 (+) scaled (arg_cur_mean (example_args ''steps'')) = Inr params"
      and w: "worker_rollout_policy sequential_sum (\<lambda>_. 0) example_rollout
                \<lparr>g_policy = [9, 9]\<rparr> (example_args ''steps'')
                = (\<lparr>g_policy = [9, 9]\<rparr>\<lparr>g_policy := params\<rparr>, Inl NotImplementedError)"
    by (auto simp: example_args_def)
  with draw have "params = [0, 0]" by blast
  with w have c: "worker_rollout_policy sequential_sum (\<lambda>_. 0) example_rollout
             \<lparr>g_policy = [9, 9]\<rparr> (example_args ''steps'')
               = (\<lparr>g_policy = [0, 0]\<rparr>, Inl NotImplementedError)"
    by simp
  from a b c show ?thesis by (simp add: example_args_def)
qed

subsection \<open>Ranking\<close>

lemma is_argsort_perm:
  assumes "is_argsort keys p"
  shows "length p = length keys" and "set p = {..<length keys}" and "distinct p"
proof -
  from assms have s: "sort p = [0..<length keys]"
    by (simp add: is_argsort_def)
  have "length (sort p) = length p" by simp
  with s show "length p = length keys" by simp
  have "set (sort p) = set p" by simp
  with s show "set p = {..<length keys}" by (simp add: atLeast0LessThan)
  have "distinct (sort p) = distinct p" by simp
  with s show "distinct p" by simp
qed

lemma is_argsort_descending:
  assumes "is_argsort (map (\<lambda>v. Some (- v)) f) p" and "i < j" and "j < length p"
  shows "f ! (p ! j) \<le> f ! (p ! i)"
proof -
  let ?keys = "map (\<lambda>v. Some (- v)) f"
  from is_argsort_perm [OF assms(1)] have sp: "set p = {..<length f}" by simp
  from assms have pi: "p ! i < length f" and pj: "p ! j < length f"
    using sp nth_mem [of i p] nth_mem [of j p] by auto
  from assms(1) have "sorted_wrt nan_le (map (\<lambda>i. ?keys ! i) p)"
    by (simp add: is_argsort_def)
  with assms(2,3) have "nan_le (?keys ! (p ! i)) (?keys ! (p ! j))"
    by (simp add: sorted_wrt_iff_nth_less)
  with pi pj show ?thesis by (simp add: nan_le_def)
qed

lemma is_argsort_top:
  assumes "is_argsort (map (\<lambda>v. Some (- v)) f) p" and "k < length f"
  shows "f ! k \<le> f ! (p ! 0)"
proof -
  from is_argsort_perm [OF assms(1)] have sp: "set p = {..<length f}" by simp
  with assms(2) have "k \<in> set p" by simp
  then obtain j where j: "j < length p" "p ! j = k"
    by (auto simp: in_set_conv_nth)
  show ?thesis
  proof (cases j)
    case 0
    with j show ?thesis by simp
  next
    case (Suc j')
    then have "0 < j" by simp
    from is_argsort_descending [OF assms(1) this j(1)] j(2) show ?thesis by simp
  qed
qed

lemma argsort_example:
  assumes "is_argsort (map (map_option uminus) [Some 3, Some 1, Some 4, Some 1]) p"
  shows "slice_to 2 p = [2, 0]"
proof -
  let ?f = "[3, 1, 4, 1 :: real]"
  from assms have a: "is_argsort (map (\<lambda>v. Some (- v)) ?f) p" by simp
  from is_argsort_perm [OF a] have len: "length p = 4"
    and sp: "set p = {..<4}" and d: "distinct p"
    by simp_all
  have top: "?f ! k \<le> ?f ! (p ! 0)" if "k < 4" for k
    using is_argsort_top [OF a, of k] that by simp
  from len sp have p0: "p ! 0 < 4" and p1: "p ! 1 < 4"
    using nth_mem [of 0 p] nth_mem [of 1 p] by auto
  from top [of 2] have "4 \<le> ?f ! (p ! 0)" by simp
  with p0 have z: "p ! 0 = 2"
    by (cases "p ! 0 = 0"; cases "p ! 0 = 1"; cases "p ! 0 = 2"; cases "p ! 0 = 3")
       (auto simp: numeral_eq_Suc less_Suc_eq)
  have "0 \<in> set p" using sp by simp
  then obtain j where j: "j < length p" "p ! j = 0"
    by (auto simp: in_set_conv_nth)
  have "j \<noteq> 0"
  proof
    assume "j = 0"
    with j z show False by simp
  qed
  have "3 \<le> ?f ! (p ! 1)"
  proof (cases "j = 1")
    case True
    with j show ?thesis by simp
  next
    case False
    with \<open>j \<noteq> 0\<close> have "1 < j" by simp
    from is_argsort_descending [OF a this j(1)] j(2) show ?thesis by simp
  qed
  moreover have "p ! 1 \<noteq> 2"
  proof -
    from d len have "p ! 1 \<noteq> p ! 0"
      by (simp add: nth_eq_iff_index_eq)
    with z show ?thesis by simp
  qed
  ultimately have o: "p ! 1 = 0"
    using p1
    by (cases "p ! 1 = 0"; cases "p ! 1 = 1"; cases "p ! 1 = 2"; cases "p ! 1 = 3")
       (auto simp: numeral_eq_Suc less_Suc_eq)
  from len have "take 2 p = [p ! 0, p ! 1]"
    by (cases p; cases "tl p") (auto simp: numeral_eq_Suc)
  with z o show ?thesis by (simp add: slice_to_def)
qed

subsection \<open>Distribution update\<close>

lemma first_returns_values:
  "list_all2 (\<lambda>info v. \<exists>rest. result_returns (snd info) = Some v # rest) infos f
     \<Longrightarrow> first_returns (map snd infos) = Inr (map Some f)"
  by (induction rule: list_all2_induct) auto

lemma length_mean_axis0: "length (mean_axis0 rows) = length (hd rows)"
  by (simp add: mean_axis0_def)

lemma length_std_axis0: "length (std_axis0 rows) = length (hd rows)"
  by (simp add: std_axis0_def)

lemma mean_axis0_nth:
  "j < length (hd rows) \<Longrightarrow>
     mean_axis0 rows ! j = (\<Sum>r\<leftarrow>rows. r ! j) / real (length rows)"
  by (simp add: mean_axis0_def column_def)

lemma std_axis0_nth:
  "j < length (hd rows) \<Longrightarrow>
     std_axis0 rows ! j = sqrt ((\<Sum>r\<leftarrow>rows. (r ! j - mean_axis0 rows ! j)\<^sup>2) / real (length rows))"
  by (simp add: std_axis0_def mean_axis0_def column_def Let_def comp_def)

lemma mean_axis0_single: "mean_axis0 [x] = x"
  by (simp add: mean_axis0_def column_def map_nth)

lemma std_axis0_single: "std_axis0 [x] = replicate (length x) 0"
  by (simp add: std_axis0_def column_def map_replicate_const)

lemma update_distribution_value:
  assumes fit: "list_all2 (\<lambda>info v. \<exists>rest. result_returns (snd info) = Some v # rest) infos f"
    and ne: "infos \<noteq> []"
    and srt: "is_argsort (map (\<lambda>v. Some (- v)) f) (argsort (map (\<lambda>v. Some (- v)) f))"
    and nb: "1 \<le> n_best"
  shows "\<exists>rest. take (nat n_best) (argsort (map (\<lambda>v. Some (- v)) f))
                  = argsort (map (\<lambda>v. Some (- v)) f) ! 0 # rest
           \<and> update_distribution argsort n_best infos =
               Inr (mean_axis0 (map (\<lambda>i. fst (infos ! i))
                                   (take (nat n_best) (argsort (map (\<lambda>v. Some (- v)) f)))),
                    std_axis0 (map (\<lambda>i. fst (infos ! i))
                                  (take (nat n_best) (argsort (map (\<lambda>v. Some (- v)) f)))),
                    fst (infos ! (argsort (map (\<lambda>v. Some (- v)) f) ! 0)))"
proof -
  define p where "p = argsort (map (\<lambda>v. Some (- v)) f)"
  define best where "best = take (nat n_best) p"
  from fit have lf: "length f = length infos"
    by (simp add: list_all2_lengthD)
  from is_argsort_perm [OF srt] lf have lp: "length p = length infos"
    and sp: "set p = {..<length infos}"
    by (simp_all add: p_def)
  from lp ne obtain a q where pq: "p = a # q"
    by (cases p) auto
  from nb obtain m where m: "nat n_best = Suc m"
    by (cases "nat n_best") auto
  have bst: "best = p ! 0 # take m q"
    by (simp add: best_def m pq)
  have inb: "i < length infos" if "i \<in> set best" for i
  proof -
    from that have "i \<in> set p" unfolding best_def by (rule in_set_takeD)
    with sp show ?thesis by simp
  qed
  have sl: "slice_to n_best p = best"
    using nb by (simp add: slice_to_def best_def)
  have rows: "map (\<lambda>i. map fst infos ! i) best = map (\<lambda>i. fst (infos ! i)) best"
    using inb by (simp add: map_eq_conv)
  have chk: "\<not> (\<exists>i \<in> set best. length (map fst infos) \<le> i)"
    using inb by (auto simp: not_le [symmetric])
  have hd: "map (\<lambda>i. fst (infos ! i)) best
              = fst (infos ! (p ! 0)) # map (\<lambda>i. fst (infos ! i)) (take m q)"
    by (simp add: bst)
  have "update_distribution argsort n_best infos =
          (if \<exists>i \<in> set (slice_to n_best p). length (map fst infos) \<le> i then Inl IndexError
           else case map (\<lambda>i. map fst infos ! i) (slice_to n_best p) of
                  [] \<Rightarrow> Inl IndexError
                | best_x # _ \<Rightarrow>
                    Inr (mean_axis0 (map (\<lambda>i. map fst infos ! i) (slice_to n_best p)),
                         std_axis0 (map (\<lambda>i. map fst infos ! i) (slice_to n_best p)),
                         best_x))"
    unfolding p_def
    by (simp add: update_distribution_def first_returns_values [OF fit] comp_def Let_def)
  also have "\<dots> = (case map (\<lambda>i. fst (infos ! i)) best of
                  [] \<Rightarrow> Inl IndexError
                | best_x # _ \<Rightarrow>
                    Inr (mean_axis0 (map (\<lambda>i. fst (infos ! i)) best),
                         std_axis0 (map (\<lambda>i. fst (infos ! i)) best),
                         best_x))"
    unfolding sl rows using chk by simp
  also have "\<dots> = Inr (mean_axis0 (map (\<lambda>i. fst (infos ! i)) best),
               std_axis0 (map (\<lambda>i. fst (infos ! i)) best),
               fst (infos ! (p ! 0)))"
    by (simp add: hd)
  finally have "update_distribution argsort n_best infos =
          Inr (mean_axis0 (map (\<lambda>i. fst (infos ! i)) best),
               std_axis0 (map (\<lambda>i. fst (infos ! i)) best),
               fst (infos ! (p ! 0)))" .
  with bst show ?thesis
    unfolding best_def p_def by blast
qed

lemma train_itr_constant_pool:
  assumes "extra_decay_time self \<noteq> 0"
    and "update_distribution argsort n_best infos = Inr (m, s, b)"
  shows "\<exists>st'. train_itr self argsort (\<lambda>_ _ _. infos) n_best itr st = Inr st'
           \<and> policy st' = b \<and> cur_mean st' = m \<and> cur_std st' = Vec s"
  using assms
  by (simp add: train_itr_def extra_var_mult_def Let_def split: option.split prod.split)

lemma example_result_returns: "result_returns (example_result v) = [Some v]"
  by (simp add: example_result_def get_stderr_lb_varyinglens_def zip_longest_def
      max_len_def column_lb_def non_nan_def count_n_def np_mean_def np_std_def
      lower_bound_def)

lemma example_argsort_ok:
  "is_argsort (map (\<lambda>v. Some (- v)) [3, 1, 4, 1]) (example_argsort keys)"
  by (simp add: is_argsort_def example_argsort_def nan_le_def upt_rec numeral_eq_Suc)

text \<open>
  C1. Let \<open>infos\<close> be a non-empty batch of results whose parameter vectors have length
  \<open>K\<close>, let \<open>f\<close> list the first elements of their returns vectors, and let \<open>p\<close> be what
  \<open>argsort\<close> returns for the negated \<open>f\<close>. Then \<open>p\<close> ranks all samples by \<open>f\<close> in
  descending order, the survivors are the first \<open>n_best\<close> indices of \<open>p\<close>, the new mean
  is the elementwise mean of the survivors' parameter vectors, the new std is their
  elementwise population standard deviation, the best \<open>x\<close> is the parameter vector ranked
  first (whose \<open>f\<close> is maximal), and an iteration of \<open>train\<close> that collects this batch
  installs it into the policy and continues from that mean and std. For the fitness
  values \<open>[3,1,4,1]\<close> and \<open>n_best = 2\<close> the survivors are the indices 2 and 0, whatever
  order \<open>argsort\<close> gives to the tie.
\<close>

theorem distribution_update:
  assumes fit: "list_all2 (\<lambda>info v. \<exists>rest. result_returns (snd info) = Some v # rest) infos f"
    and ne: "infos \<noteq> []"
    and shape: "\<forall>info \<in> set infos. length (fst info) = K"
    and srt: "is_argsort (map (\<lambda>v. Some (- v)) f) (argsort (map (\<lambda>v. Some (- v)) f))"
    and nb: "1 \<le> n_best"
  shows "let p = argsort (map (\<lambda>v. Some (- v)) f);
             best_inds = take (nat n_best) p;
             n = length best_inds
         in distinct p \<and> set p = {..<length infos}
            \<and> (\<forall>i j. i < j \<and> j < length p \<longrightarrow> f ! (p ! j) \<le> f ! (p ! i))
            \<and> (\<forall>k<length infos. f ! k \<le> f ! (p ! 0))
            \<and> slice_to n_best p = best_inds
            \<and> n = min (nat n_best) (length infos)
            \<and> (\<exists>mean std best_x.
                  update_distribution argsort n_best infos = Inr (mean, std, best_x)
                  \<and> length mean = K \<and> length std = K
                  \<and> (\<forall>j<K. mean ! j = (\<Sum>i\<leftarrow>best_inds. fst (infos ! i) ! j) / real n)
                  \<and> (\<forall>j<K. std ! j =
                        sqrt ((\<Sum>i\<leftarrow>best_inds. (fst (infos ! i) ! j - mean ! j)\<^sup>2) / real n))
                  \<and> best_x = fst (infos ! (p ! 0))
                  \<and> (\<forall>self itr st. extra_decay_time self \<noteq> 0 \<longrightarrow>
                        (\<exists>st'. train_itr self argsort (\<lambda>_ _ _. infos) n_best itr st = Inr st'
                               \<and> policy st' = best_x \<and> cur_mean st' = mean
                               \<and> cur_std st' = Vec std)))
            \<and> (\<forall>q. is_argsort (map (map_option uminus) [Some 3, Some 1, Some 4, Some 1]) q
                     \<longrightarrow> slice_to 2 q = [2, 0])"
proof -
  define p where "p = argsort (map (\<lambda>v. Some (- v)) f)"
  define best where "best = take (nat n_best) p"
  define rows where "rows = map (\<lambda>i. fst (infos ! i)) best"
  from fit have lf: "length f = length infos"
    by (simp add: list_all2_lengthD)
  from srt have srt': "is_argsort (map (\<lambda>v. Some (- v)) f) p"
    by (simp add: p_def)
  from is_argsort_perm [OF srt'] lf have lp: "length p = length infos"
    and sp: "set p = {..<length infos}" and dp: "distinct p"
    by simp_all
  have desc: "\<forall>i j. i < j \<and> j < length p \<longrightarrow> f ! (p ! j) \<le> f ! (p ! i)"
    using is_argsort_descending [OF srt'] by blast
  have top: "\<forall>k<length infos. f ! k \<le> f ! (p ! 0)"
    using is_argsort_top [OF srt'] lf by simp
  have sl: "slice_to n_best p = best"
    using nb by (simp add: slice_to_def best_def)
  have n: "length best = min (nat n_best) (length infos)"
    by (simp add: best_def lp)
  from update_distribution_value [where argsort = argsort, OF fit ne srt nb] obtain rest
    where bst: "best = p ! 0 # rest"
      and upd: "update_distribution argsort n_best infos =
                  Inr (mean_axis0 rows, std_axis0 rows, fst (infos ! (p ! 0)))"
    unfolding p_def best_def rows_def by blast
  from lp ne have "p ! 0 \<in> set p"
    by (cases p) auto
  with sp have "infos ! (p ! 0) \<in> set infos" by simp
  with shape have "length (fst (infos ! (p ! 0))) = K" by blast
  then have hdK: "length (hd rows) = K"
    by (simp add: rows_def bst)
  have lr: "length rows = length best"
    by (simp add: rows_def)
  have mean: "\<forall>j<K. mean_axis0 rows ! j = (\<Sum>i\<leftarrow>best. fst (infos ! i) ! j) / real (length best)"
    using hdK by (simp add: mean_axis0_nth lr) (simp add: rows_def comp_def)
  have std: "\<forall>j<K. std_axis0 rows ! j =
               sqrt ((\<Sum>i\<leftarrow>best. (fst (infos ! i) ! j - mean_axis0 rows ! j)\<^sup>2)
                     / real (length best))"
    using hdK by (simp add: std_axis0_nth lr) (simp add: rows_def comp_def)
  have itr: "\<forall>self itr st. extra_decay_time self \<noteq> 0 \<longrightarrow>
               (\<exists>st'. train_itr self argsort (\<lambda>_ _ _. infos) n_best itr st = Inr st'
                      \<and> policy st' = fst (infos ! (p ! 0)) \<and> cur_mean st' = mean_axis0 rows
                      \<and> cur_std st' = Vec (std_axis0 rows))"
    using train_itr_constant_pool [OF _ upd] by blast
  have ex: "\<forall>q. is_argsort (map (map_option uminus) [Some 3, Some 1, Some 4, Some 1]) q
                     \<longrightarrow> slice_to 2 q = [2, 0]"
    using argsort_example by blast
  have "\<exists>mean std best_x.
          update_distribution argsort n_best infos = Inr (mean, std, best_x)
          \<and> length mean = K \<and> length std = K
          \<and> (\<forall>j<K. mean ! j = (\<Sum>i\<leftarrow>best. fst (infos ! i) ! j) / real (length best))
          \<and> (\<forall>j<K. std ! j =
                sqrt ((\<Sum>i\<leftarrow>best. (fst (infos ! i) ! j - mean ! j)\<^sup>2) / real (length best)))
          \<and> best_x = fst (infos ! (p ! 0))
          \<and> (\<forall>self itr st. extra_decay_time self \<noteq> 0 \<longrightarrow>
                (\<exists>st'. train_itr self argsort (\<lambda>_ _ _. infos) n_best itr st = Inr st'
                       \<and> policy st' = best_x \<and> cur_mean st' = mean
                       \<and> cur_std st' = Vec std))"
    using upd mean std itr hdK
    by (intro exI [of _ "mean_axis0 rows"] exI [of _ "std_axis0 rows"]
        exI [of _ "fst (infos ! (p ! 0))"])
       (simp add: length_mean_axis0 length_std_axis0)
  with dp sp desc top sl n ex show ?thesis
    unfolding Let_def p_def [symmetric] best_def [symmetric] by blast
qed

theorem distribution_update_witness:
  "list_all2 (\<lambda>info v. \<exists>rest. result_returns (snd info) = Some v # rest)
     example_infos [3, 1, 4, 1]
   \<and> example_infos \<noteq> []
   \<and> list_all (\<lambda>info. length (fst info) = 2) example_infos
   \<and> is_argsort (map (\<lambda>v. Some (- v)) [3, 1, 4, 1])
        (example_argsort (map (\<lambda>v. Some (- v)) [3, 1, 4, 1]))
   \<and> slice_to 2 (example_argsort (map (\<lambda>v. Some (- v)) [3, 1, 4, 1])) = [2, 0]
   \<and> (\<exists>mean std. update_distribution example_argsort 2 example_infos
                     = Inr (mean, std, [1, 5])
                   \<and> mean ! 0 = 2 \<and> mean ! 1 = 5 \<and> std ! 0 = 1 \<and> std ! 1 = 0)"
proof -
  have fit: "list_all2 (\<lambda>info v. \<exists>rest. result_returns (snd info) = Some v # rest)
               example_infos [3, 1, 4, 1]"
    by (simp add: example_infos_def example_result_returns)
  have ne: "example_infos \<noteq> []"
    by (simp add: example_infos_def)
  have shape: "\<forall>info \<in> set example_infos. length (fst info) = 2"
    by (simp add: example_infos_def)
  have srt: "is_argsort (map (\<lambda>v. Some (- v)) [3, 1, 4, 1])
               (example_argsort (map (\<lambda>v. Some (- v)) [3, 1, 4, 1]))"
    by (rule example_argsort_ok)
  have nb: "(1::int) \<le> 2" by simp
  note th = distribution_update [where argsort = example_argsort, OF fit ne shape srt nb]
  from th have sl: "slice_to 2 (example_argsort (map (\<lambda>v. Some (- v)) [3, 1, 4, 1])) = [2, 0]"
    by (simp add: Let_def example_argsort_def)
  from th obtain mean std best_x
    where u: "update_distribution example_argsort 2 example_infos = Inr (mean, std, best_x)"
      and m: "\<forall>j<2. mean ! j = (\<Sum>i\<leftarrow>[2, 0]. fst (example_infos ! i) ! j) / real 2"
      and s: "\<forall>j<2. std ! j =
                sqrt ((\<Sum>i\<leftarrow>[2, 0]. (fst (example_infos ! i) ! j - mean ! j)\<^sup>2) / real 2)"
      and b: "best_x = fst (example_infos ! 2)"
    by (auto simp: Let_def example_argsort_def)
  from m [rule_format, of 0] m [rule_format, of 1]
  have m0: "mean ! 0 = 2" and m1: "mean ! 1 = 5"
    by (simp_all add: example_infos_def)
  from s [rule_format, of 0] s [rule_format, of 1] m0 m1
  have "std ! 0 = 1" and "std ! 1 = 0"
    by (simp_all add: example_infos_def)
  moreover from b have "best_x = [1, 5]"
    by (simp add: example_infos_def)
  moreover from shape have "list_all (\<lambda>info. length (fst info) = 2) example_infos"
    by (simp add: list_all_iff)
  ultimately show ?thesis
    using fit ne srt sl u m0 m1 by blast
qed

subsection \<open>Number of survivors\<close>

lemma n_best_of_value:
  assumes "round64 (of_int (n_samples self)) = Some nf"
    and "round64 (nf * best_frac self) = Some product"
  shows "n_best_of self = Inr (max 1 (py_int product))"
  using assms by (simp add: n_best_of_def float_of_int_def fmul_def)

lemma n_best_of_fields:
  "n_samples other = n_samples self \<Longrightarrow> best_frac other = best_frac self
     \<Longrightarrow> n_best_of other = n_best_of self"
  unfolding n_best_of_def by (simp only:)

lemma n_best_of_pos: "n_best_of self = Inr n \<Longrightarrow> 1 \<le> n"
  by (auto simp: n_best_of_def split: sum.splits option.splits)

lemma default_best_frac_100:
  "n_best_of (default_cem\<lparr>n_samples := 100, batch_size := bs\<rparr>) = Inr 5"
proof -
  have a: "round64 (of_int 100) = Some 100"
    using round64_of_int [of 100] by simp
  have "round_to_grid (100 * (3602879701896397 / 2 ^ 56)) = 5"
    by (subst round_to_grid_eval [where e = 2]) (simp_all add: round_half_even_def)
  then have b: "round64 (100 * (3602879701896397 / 2 ^ 56)) = Some 5"
    by (simp add: round64_def)
  from n_best_of_value [of "default_cem\<lparr>n_samples := 100, batch_size := bs\<rparr>" 100 5] a b
  show ?thesis by (simp add: default_cem_def py_int_def)
qed

lemma default_best_frac_40:
  "n_best_of (default_cem\<lparr>n_samples := 40, batch_size := bs\<rparr>) = Inr 2"
proof -
  have a: "round64 (of_int 40) = Some 40"
    using round64_of_int [of 40] by simp
  have "round_to_grid (40 * (3602879701896397 / 2 ^ 56)) = 2"
    by (subst round_to_grid_eval [where e = 1]) (simp_all add: round_half_even_def)
  then have b: "round64 (40 * (3602879701896397 / 2 ^ 56)) = Some 2"
    by (simp add: round64_def)
  from n_best_of_value [of "default_cem\<lparr>n_samples := 40, batch_size := bs\<rparr>" 40 2] a b
  show ?thesis by (simp add: default_cem_def py_int_def)
qed

lemma example_n_best: "n_best_of example_cem = Inr 1"
proof -
  have a: "round64 (of_int 20) = Some 20"
    using round64_of_int [of 20] by simp
  have "round_to_grid (20 * (3602879701896397 / 2 ^ 56)) = 1"
    by (subst round_to_grid_eval [where e = 0]) (simp_all add: round_half_even_def)
  then have b: "round64 (20 * (3602879701896397 / 2 ^ 56)) = Some 1"
    by (simp add: round64_def)
  from n_best_of_value [of example_cem 20 1] a b
  show ?thesis by (simp add: example_cem_def default_cem_def py_int_def)
qed

text \<open>
  C5 (as stated, refuted). With \<open>n_samples = 5\<close> and \<open>best_frac\<close> the float64 value
  \<open>0.6\<close>, which is below \<open>3/5\<close>, the float64 product rounds up to \<open>3.0\<close> and \<open>n_best\<close> is
  3, where \<open>max(1, floor(n_samples * best_frac))\<close> is 2.
\<close>

theorem n_best_rounding_counterexample:
  "1 \<le> n_samples (default_cem\<lparr>n_samples := 5, best_frac := 5404319552844595 / 2 ^ 53\<rparr>)
   \<and> 0 < best_frac (default_cem\<lparr>n_samples := 5, best_frac := 5404319552844595 / 2 ^ 53\<rparr>)
   \<and> best_frac (default_cem\<lparr>n_samples := 5, best_frac := 5404319552844595 / 2 ^ 53\<rparr>) \<le> 1
   \<and> round64 (5404319552844595 / 2 ^ 53) = Some (5404319552844595 / 2 ^ 53)
   \<and> n_best_of (default_cem\<lparr>n_samples := 5, best_frac := 5404319552844595 / 2 ^ 53\<rparr>) = Inr 3
   \<and> max 1 \<lfloor>real_of_int 5 * (5404319552844595 / 2 ^ 53)\<rfloor> = (2::int)"
proof -
  have fl: "round64 (5404319552844595 / 2 ^ 53) = Some (5404319552844595 / 2 ^ 53)"
    using round64_exact [of "5404319552844595 / 2 ^ 53" 5404319552844595 "- 53"]
    by simp
  have a: "round64 (of_int 5) = Some 5"
    using round64_of_int [of 5] by simp
  have "round_to_grid (5 * (5404319552844595 / 2 ^ 53)) = 3"
    by (subst round_to_grid_eval [where e = 1]) (simp_all add: round_half_even_def)
  then have b: "round64 (5 * (5404319552844595 / 2 ^ 53)) = Some 3"
    by (simp add: round64_def)
  from n_best_of_value
         [of "default_cem\<lparr>n_samples := 5, best_frac := 5404319552844595 / 2 ^ 53\<rparr>" 5 3] a b
  have "n_best_of (default_cem\<lparr>n_samples := 5, best_frac := 5404319552844595 / 2 ^ 53\<rparr>)
          = Inr 3"
    by (simp add: py_int_def)
  with fl show ?thesis by simp
qed

text \<open>
  C5 (amended). For \<open>1 \<le> n_samples \<le> 2\<^sup>1\<^sup>0\<^sup>2\<^sup>3\<close> and \<open>best_frac\<close> in \<open>(0, 1]\<close>, the number of
  survivors is \<open>max(1, floor(p))\<close>, where \<open>p\<close> is the float64 product of \<open>n_samples\<close>
  (converted to float64) and \<open>best_frac\<close>; it is at least 1, also when the product
  rounds down to 0.
\<close>

theorem n_best_at_least_one:
  assumes "1 \<le> n_samples self" and "n_samples self \<le> 2 ^ 1023"
    and "0 < best_frac self" and "best_frac self \<le> 1"
  shows "\<exists>nf p. round64 (of_int (n_samples self)) = Some nf
           \<and> round64 (nf * best_frac self) = Some p
           \<and> n_best_of self = Inr (max 1 \<lfloor>p\<rfloor>)
           \<and> 1 \<le> max 1 \<lfloor>p\<rfloor>
           \<and> (\<lfloor>p\<rfloor> = 0 \<longrightarrow> n_best_of self = Inr 1)"
proof -
  define n where "n = real_of_int (n_samples self)"
  define nf where "nf = round_to_grid n"
  define p where "p = round_to_grid (nf * best_frac self)"
  from assms(1) have n0: "0 \<le> n" by (simp add: n_def)
  from assms(2) have "n \<le> real_of_int (2 ^ 1023)"
    unfolding n_def by (simp only: of_int_le_iff)
  then have n1: "n \<le> 2 ^ 1023" by simp
  from round64_bounded [OF n0 n1] have cn: "round64 n = Some nf"
    by (simp add: nf_def)
  have nf0: "0 \<le> nf"
    unfolding nf_def using n0 by (rule round_to_grid_nonneg)
  have nf1: "nf \<le> 2 ^ 1023"
    unfolding nf_def
    using round_to_grid_le_float [OF n1 _ round_to_grid_top] by simp
  from nf0 assms(3) have x0: "0 \<le> nf * best_frac self" by simp
  from nf0 assms(4) have "nf * best_frac self \<le> nf * 1"
    by (intro mult_left_mono) simp_all
  with nf1 have x1: "nf * best_frac self \<le> 2 ^ 1023" by simp
  from round64_bounded [OF x0 x1] have cp: "round64 (nf * best_frac self) = Some p"
    by (simp add: p_def)
  have p0: "0 \<le> p"
    unfolding p_def using x0 by (rule round_to_grid_nonneg)
  from n_best_of_value [OF cn [unfolded n_def] cp] p0
  have v: "n_best_of self = Inr (max 1 \<lfloor>p\<rfloor>)"
    by (simp add: py_int_def)
  then have "\<lfloor>p\<rfloor> = 0 \<longrightarrow> n_best_of self = Inr 1" by simp
  with cn cp v show ?thesis
    unfolding n_def by (intro exI [of _ nf] exI [of _ p]) simp
qed

theorem n_best_at_least_one_witness:
  "1 \<le> n_samples (default_cem\<lparr>n_samples := 10\<rparr>)
   \<and> n_samples (default_cem\<lparr>n_samples := 10\<rparr>) \<le> 2 ^ 1023
   \<and> 0 < best_frac (default_cem\<lparr>n_samples := 10\<rparr>)
   \<and> best_frac (default_cem\<lparr>n_samples := 10\<rparr>) \<le> 1
   \<and> round64 (10 * best_frac (default_cem\<lparr>n_samples := 10\<rparr>)) = Some (1 / 2)
   \<and> n_best_of (default_cem\<lparr>n_samples := 10\<rparr>) = Inr 1"
proof -
  have h: "1 \<le> n_samples (default_cem\<lparr>n_samples := 10\<rparr>)"
    "n_samples (default_cem\<lparr>n_samples := 10\<rparr>) \<le> 2 ^ 1023"
    "0 < best_frac (default_cem\<lparr>n_samples := 10\<rparr>)"
    "best_frac (default_cem\<lparr>n_samples := 10\<rparr>) \<le> 1"
    by (simp_all add: default_cem_def)
  have a: "round64 (of_int 10) = Some 10"
    using round64_of_int [of 10] by simp
  have "round_to_grid (10 * (3602879701896397 / 2 ^ 56)) = 1 / 2"
    by (subst round_to_grid_eval [where e = "- 1"]) (simp_all add: round_half_even_def)
  then have b: "round64 (10 * (3602879701896397 / 2 ^ 56)) = Some (1 / 2)"
    by (simp add: round64_def)
  from n_best_at_least_one [OF h] obtain nf p
    where "round64 (of_int (n_samples (default_cem\<lparr>n_samples := 10\<rparr>))) = Some nf"
      and "round64 (nf * best_frac (default_cem\<lparr>n_samples := 10\<rparr>)) = Some p"
      and v: "n_best_of (default_cem\<lparr>n_samples := 10\<rparr>) = Inr (max 1 \<lfloor>p\<rfloor>)"
    by blast
  with a b have "p = 1 / 2" by (simp add: default_cem_def)
  with v have "n_best_of (default_cem\<lparr>n_samples := 10\<rparr>) = Inr 1" by simp
  with h b show ?thesis by (simp add: default_cem_def)
qed

subsection \<open>The training loop\<close>

lemma train_itr_step:
  assumes "train_itr self argsort rc nb itr st = Inr st'"
  shows "extra_decay_time self \<noteq> 0
         \<and> (\<exists>call std.
               dispatched st' = dispatched st @ [call]
               \<and> (arg_criterion (snd call), fst call) = (case batch_size self of
                   None \<Rightarrow> (''paths'', n_samples self)
                 | Some b \<Rightarrow> (''samples'', b))
               \<and> arg_cur_mean (snd call) = cur_mean st
               \<and> arg_sample_std (snd call)
                   = compute_sample_std self
                       (max (1 - real itr / extra_decay_time self) 0) (cur_std st)
               \<and> update_distribution argsort nb (rc itr (fst call) (snd call))
                   = Inr (cur_mean st', std, policy st')
               \<and> cur_std st' = Vec std
               \<and> snapshots st' = snapshots st @
                    [\<lparr>snap_itr = itr, snap_policy = policy st',
                      snap_cur_mean = cur_mean st', snap_cur_std = cur_std st'\<rparr>])"
proof (cases "batch_size self")
  case None
  with assms show ?thesis
    by (auto simp: train_itr_def extra_var_mult_def Let_def
        split: sum.splits prod.splits if_splits)
next
  case (Some b)
  with assms show ?thesis
    by (auto simp: train_itr_def extra_var_mult_def Let_def
        split: sum.splits prod.splits if_splits)
qed

lemma train_loop_trace:
  assumes "train_loop self argsort rc nb itrs st = Inr st'"
  shows "\<exists>calls snaps.
           snapshots st' = snapshots st @ snaps
           \<and> dispatched st' = dispatched st @ calls
           \<and> length snaps = length itrs \<and> length calls = length itrs
           \<and> (itrs \<noteq> [] \<longrightarrow>
                 arg_cur_mean (snd (calls ! 0)) = cur_mean st
                 \<and> arg_sample_std (snd (calls ! 0))
                     = compute_sample_std self
                         (max (1 - real (itrs ! 0) / extra_decay_time self) 0) (cur_std st))
           \<and> (\<forall>k. Suc k < length itrs \<longrightarrow>
                 arg_cur_mean (snd (calls ! Suc k)) = snap_cur_mean (snaps ! k)
                 \<and> arg_sample_std (snd (calls ! Suc k))
                     = compute_sample_std self
                         (max (1 - real (itrs ! Suc k) / extra_decay_time self) 0)
                         (snap_cur_std (snaps ! k)))
           \<and> (\<forall>k<length itrs.
                 extra_decay_time self \<noteq> 0
                 \<and> (arg_criterion (snd (calls ! k)), fst (calls ! k)) = (case batch_size self of
                   None \<Rightarrow> (''paths'', n_samples self)
                 | Some b \<Rightarrow> (''samples'', b))
                 \<and> (\<exists>std. update_distribution argsort nb
                              (rc (itrs ! k) (fst (calls ! k)) (snd (calls ! k)))
                            = Inr (snap_cur_mean (snaps ! k), std, snap_policy (snaps ! k))
                          \<and> snap_cur_std (snaps ! k) = Vec std))"
  using assms
proof (induction itrs arbitrary: st)
  case Nil
  then show ?case by simp
next
  case (Cons itr itrs)
  from Cons.prems obtain st1
    where s1: "train_itr self argsort rc nb itr st = Inr st1"
      and rest: "train_loop self argsort rc nb itrs st1 = Inr st'"
    by (auto split: sum.splits)
  define snap where "snap = \<lparr>snap_itr = itr, snap_policy = policy st1,
                             snap_cur_mean = cur_mean st1, snap_cur_std = cur_std st1\<rparr>"
  from train_itr_step [OF s1] obtain call std
    where T: "extra_decay_time self \<noteq> 0"
      and b: "dispatched st1 = dispatched st @ [call]"
      and c: "(arg_criterion (snd call), fst call) = (case batch_size self of
                   None \<Rightarrow> (''paths'', n_samples self)
                 | Some b \<Rightarrow> (''samples'', b))"
      and m: "arg_cur_mean (snd call) = cur_mean st"
      and ss: "arg_sample_std (snd call)
                 = compute_sample_std self
                     (max (1 - real itr / extra_decay_time self) 0) (cur_std st)"
      and d: "update_distribution argsort nb (rc itr (fst call) (snd call))
                = Inr (snap_cur_mean snap, std, snap_policy snap)"
      and e: "snap_cur_std snap = Vec std"
      and a: "snapshots st1 = snapshots st @ [snap]"
    unfolding snap_def by auto
  from Cons.IH [OF rest] obtain calls snaps
    where a': "snapshots st' = snapshots st1 @ snaps"
      and b': "dispatched st' = dispatched st1 @ calls"
      and l: "length snaps = length itrs" "length calls = length itrs"
      and first: "itrs \<noteq> [] \<longrightarrow>
                 arg_cur_mean (snd (calls ! 0)) = cur_mean st1
                 \<and> arg_sample_std (snd (calls ! 0))
                     = compute_sample_std self
                         (max (1 - real (itrs ! 0) / extra_decay_time self) 0) (cur_std st1)"
      and nxt: "\<forall>k. Suc k < length itrs \<longrightarrow>
                 arg_cur_mean (snd (calls ! Suc k)) = snap_cur_mean (snaps ! k)
                 \<and> arg_sample_std (snd (calls ! Suc k))
                     = compute_sample_std self
                         (max (1 - real (itrs ! Suc k) / extra_decay_time self) 0)
                         (snap_cur_std (snaps ! k))"
      and r: "\<forall>k<length itrs.
                 extra_decay_time self \<noteq> 0
                 \<and> (arg_criterion (snd (calls ! k)), fst (calls ! k)) = (case batch_size self of
                   None \<Rightarrow> (''paths'', n_samples self)
                 | Some b \<Rightarrow> (''samples'', b))
                 \<and> (\<exists>std. update_distribution argsort nb
                              (rc (itrs ! k) (fst (calls ! k)) (snd (calls ! k)))
                            = Inr (snap_cur_mean (snaps ! k), std, snap_policy (snaps ! k))
                          \<and> snap_cur_std (snaps ! k) = Vec std)"
    by blast
  have sn: "snap_cur_mean snap = cur_mean st1" "snap_cur_std snap = cur_std st1"
    by (simp_all add: snap_def)
  have p1: "arg_cur_mean (snd ((call # calls) ! 0)) = cur_mean st
            \<and> arg_sample_std (snd ((call # calls) ! 0))
                = compute_sample_std self
                    (max (1 - real ((itr # itrs) ! 0) / extra_decay_time self) 0) (cur_std st)"
    using m ss by simp
  have p2: "\<forall>k. Suc k < length (itr # itrs) \<longrightarrow>
              arg_cur_mean (snd ((call # calls) ! Suc k)) = snap_cur_mean ((snap # snaps) ! k)
              \<and> arg_sample_std (snd ((call # calls) ! Suc k))
                  = compute_sample_std self
                      (max (1 - real ((itr # itrs) ! Suc k) / extra_decay_time self) 0)
                      (snap_cur_std ((snap # snaps) ! k))"
  proof (intro allI impI)
    fix k
    assume k: "Suc k < length (itr # itrs)"
    show "arg_cur_mean (snd ((call # calls) ! Suc k)) = snap_cur_mean ((snap # snaps) ! k)
              \<and> arg_sample_std (snd ((call # calls) ! Suc k))
                  = compute_sample_std self
                      (max (1 - real ((itr # itrs) ! Suc k) / extra_decay_time self) 0)
                      (snap_cur_std ((snap # snaps) ! k))"
    proof (cases k)
      case 0
      with k have "itrs \<noteq> []" by auto
      with first 0 sn show ?thesis by simp
    next
      case (Suc k')
      with k have "Suc k' < length itrs" by simp
      with nxt Suc show ?thesis by simp
    qed
  qed
  have p3: "\<forall>k<length (itr # itrs).
              extra_decay_time self \<noteq> 0
              \<and> (arg_criterion (snd ((call # calls) ! k)), fst ((call # calls) ! k)) = (case batch_size self of
                   None \<Rightarrow> (''paths'', n_samples self)
                 | Some b \<Rightarrow> (''samples'', b))
              \<and> (\<exists>std. update_distribution argsort nb
                           (rc ((itr # itrs) ! k) (fst ((call # calls) ! k))
                               (snd ((call # calls) ! k)))
                         = Inr (snap_cur_mean ((snap # snaps) ! k), std,
                                snap_policy ((snap # snaps) ! k))
                       \<and> snap_cur_std ((snap # snaps) ! k) = Vec std)"
  proof (intro allI impI)
    fix k
    assume k: "k < length (itr # itrs)"
    show "extra_decay_time self \<noteq> 0
              \<and> (arg_criterion (snd ((call # calls) ! k)), fst ((call # calls) ! k)) = (case batch_size self of
                   None \<Rightarrow> (''paths'', n_samples self)
                 | Some b \<Rightarrow> (''samples'', b))
              \<and> (\<exists>std. update_distribution argsort nb
                           (rc ((itr # itrs) ! k) (fst ((call # calls) ! k))
                               (snd ((call # calls) ! k)))
                         = Inr (snap_cur_mean ((snap # snaps) ! k), std,
                                snap_policy ((snap # snaps) ! k))
                       \<and> snap_cur_std ((snap # snaps) ! k) = Vec std)"
    proof (cases k)
      case 0
      with T c d e show ?thesis by simp
    next
      case (Suc k')
      with k have "k' < length itrs" by simp
      with r Suc show ?thesis by simp
    qed
  qed
  have "snapshots st' = snapshots st @ (snap # snaps)
        \<and> dispatched st' = dispatched st @ (call # calls)
        \<and> length (snap # snaps) = length (itr # itrs)
        \<and> length (call # calls) = length (itr # itrs)"
    using a b a' b' l by simp
  with p1 p2 p3 show ?case
    by (intro exI [of _ "call # calls"] exI [of _ "snap # snaps"]) blast
qed

lemma train_trace:
  assumes "train self argsort rc policy0 = Inr fin"
  shows "\<exists>nb. n_best_of self = Inr nb
           \<and> length (snapshots fin) = nat (n_itr self)
           \<and> length (dispatched fin) = nat (n_itr self)
           \<and> (0 < nat (n_itr self) \<longrightarrow>
                 arg_cur_mean (snd (dispatched fin ! 0)) = policy0
                 \<and> arg_sample_std (snd (dispatched fin ! 0))
                     = compute_sample_std self
                         (max (1 - real 0 / extra_decay_time self) 0) (Scalar (init_std self)))
           \<and> (\<forall>k. Suc k < nat (n_itr self) \<longrightarrow>
                 arg_cur_mean (snd (dispatched fin ! Suc k)) = snap_cur_mean (snapshots fin ! k)
                 \<and> arg_sample_std (snd (dispatched fin ! Suc k))
                     = compute_sample_std self
                         (max (1 - real (Suc k) / extra_decay_time self) 0)
                         (snap_cur_std (snapshots fin ! k)))
           \<and> (\<forall>k<nat (n_itr self).
                 extra_decay_time self \<noteq> 0
                 \<and> (arg_criterion (snd (dispatched fin ! k)), fst (dispatched fin ! k)) = (case batch_size self of
                   None \<Rightarrow> (''paths'', n_samples self)
                 | Some b \<Rightarrow> (''samples'', b))
                 \<and> (\<exists>std. update_distribution argsort nb
                              (rc k (fst (dispatched fin ! k)) (snd (dispatched fin ! k)))
                            = Inr (snap_cur_mean (snapshots fin ! k), std,
                                   snap_policy (snapshots fin ! k))
                          \<and> snap_cur_std (snapshots fin ! k) = Vec std))"
proof -
  define st0 where "st0 = \<lparr>cur_mean = policy0, cur_std = Scalar (init_std self),
                          policy = policy0, snapshots = [], dispatched = []\<rparr>"
  define n where "n = nat (n_itr self)"
  from assms obtain nb where nb: "n_best_of self = Inr nb"
    and run: "train_loop self argsort rc nb [0..<n] st0 = Inr fin"
    by (auto simp: train_def st0_def n_def split: sum.splits)
  from train_loop_trace [OF run] obtain calls snaps
    where a: "snapshots fin = snaps" and b: "dispatched fin = calls"
      and l: "length snaps = n" "length calls = n"
      and first: "[0..<n] \<noteq> [] \<longrightarrow>
                 arg_cur_mean (snd (calls ! 0)) = policy0
                 \<and> arg_sample_std (snd (calls ! 0))
                     = compute_sample_std self
                         (max (1 - real ([0..<n] ! 0) / extra_decay_time self) 0)
                         (Scalar (init_std self))"
      and nxt: "\<forall>k. Suc k < n \<longrightarrow>
                 arg_cur_mean (snd (calls ! Suc k)) = snap_cur_mean (snaps ! k)
                 \<and> arg_sample_std (snd (calls ! Suc k))
                     = compute_sample_std self
                         (max (1 - real ([0..<n] ! Suc k) / extra_decay_time self) 0)
                         (snap_cur_std (snaps ! k))"
      and r: "\<forall>k<n.
                 extra_decay_time self \<noteq> 0
                 \<and> (arg_criterion (snd (calls ! k)), fst (calls ! k)) = (case batch_size self of
                   None \<Rightarrow> (''paths'', n_samples self)
                 | Some b \<Rightarrow> (''samples'', b))
                 \<and> (\<exists>std. update_distribution argsort nb
                              (rc ([0..<n] ! k) (fst (calls ! k)) (snd (calls ! k)))
                            = Inr (snap_cur_mean (snaps ! k), std, snap_policy (snaps ! k))
                          \<and> snap_cur_std (snaps ! k) = Vec std)"
    by (auto simp: st0_def)
  have p1: "0 < n \<longrightarrow>
                 arg_cur_mean (snd (calls ! 0)) = policy0
                 \<and> arg_sample_std (snd (calls ! 0))
                     = compute_sample_std self
                         (max (1 - real 0 / extra_decay_time self) 0) (Scalar (init_std self))"
    using first by auto
  have p2: "\<forall>k. Suc k < n \<longrightarrow>
                 arg_cur_mean (snd (calls ! Suc k)) = snap_cur_mean (snaps ! k)
                 \<and> arg_sample_std (snd (calls ! Suc k))
                     = compute_sample_std self
                         (max (1 - real (Suc k) / extra_decay_time self) 0)
                         (snap_cur_std (snaps ! k))"
  proof (intro allI impI)
    fix k
    assume k: "Suc k < n"
    then have "[0..<n] ! Suc k = Suc k" by simp
    with nxt k show "arg_cur_mean (snd (calls ! Suc k)) = snap_cur_mean (snaps ! k)
                 \<and> arg_sample_std (snd (calls ! Suc k))
                     = compute_sample_std self
                         (max (1 - real (Suc k) / extra_decay_time self) 0)
                         (snap_cur_std (snaps ! k))"
      by metis
  qed
  have p3: "\<forall>k<n.
                 extra_decay_time self \<noteq> 0
                 \<and> (arg_criterion (snd (calls ! k)), fst (calls ! k)) = (case batch_size self of
                   None \<Rightarrow> (''paths'', n_samples self)
                 | Some b \<Rightarrow> (''samples'', b))
                 \<and> (\<exists>std. update_distribution argsort nb
                              (rc k (fst (calls ! k)) (snd (calls ! k)))
                            = Inr (snap_cur_mean (snaps ! k), std, snap_policy (snaps ! k))
                          \<and> snap_cur_std (snaps ! k) = Vec std)"
  proof (intro allI impI)
    fix k
    assume k: "k < n"
    then have "[0..<n] ! k = k" by simp
    with r k show "extra_decay_time self \<noteq> 0
                 \<and> (arg_criterion (snd (calls ! k)), fst (calls ! k)) = (case batch_size self of
                   None \<Rightarrow> (''paths'', n_samples self)
                 | Some b \<Rightarrow> (''samples'', b))
                 \<and> (\<exists>std. update_distribution argsort nb
                              (rc k (fst (calls ! k)) (snd (calls ! k)))
                            = Inr (snap_cur_mean (snaps ! k), std, snap_policy (snaps ! k))
                          \<and> snap_cur_std (snaps ! k) = Vec std)"
      by metis
  qed
  from nb l p1 p2 p3 show ?thesis
    unfolding a b n_def [symmetric] by blast
qed

lemma example_update_single:
  "update_distribution example_argsort 1 example_infos = Inr ([1, 5], [0, 0], [1, 5])"
  by (simp add: update_distribution_def example_infos_def example_result_returns
      example_argsort_def slice_to_def mean_axis0_single std_axis0_single numeral_eq_Suc)

lemma example_train_runs: "\<exists>fin. train example_cem example_argsort (\<lambda>_ _ _. example_infos) [0, 0] = Inr fin"
  by (simp add: train_def example_n_best train_itr_def extra_var_mult_def Let_def
      example_update_single)
     (simp add: example_cem_def default_cem_def upt_rec numeral_eq_Suc train_itr_def
      extra_var_mult_def Let_def example_update_single [unfolded numeral_eq_Suc])

text \<open>
  C9. A run of \<open>train\<close> that completes has computed the number of survivors once, before
  the loop, from \<open>n_samples\<close> and \<open>best_frac\<close> alone (their float64 product, truncated,
  and at least 1); every iteration \<open>k\<close> updates the distribution from the batch it
  collected with this same number, and dispatches with (\<open>samples\<close>, \<open>batch_size\<close>) when
  \<open>batch_size\<close> is set and (\<open>paths\<close>, \<open>n_samples\<close>) otherwise. The number does not depend
  on \<open>batch_size\<close>, and it does depend on \<open>n_samples\<close> when \<open>batch_size\<close> is set: with
  \<open>best_frac = 0.05\<close>, \<open>n_samples = 100\<close> gives 5 and \<open>n_samples = 40\<close> gives 2.
\<close>

theorem n_best_fixed:
  assumes "train self argsort rc policy0 = Inr fin"
  shows "\<exists>n_best.
           n_best_of self = Inr n_best \<and> 1 \<le> n_best
           \<and> (\<exists>nf p. round64 (of_int (n_samples self)) = Some nf
                     \<and> round64 (nf * best_frac self) = Some p
                     \<and> n_best = max 1 (py_int p))
           \<and> (\<forall>other. n_samples other = n_samples self \<and> best_frac other = best_frac self
                  \<longrightarrow> n_best_of other = Inr n_best)
           \<and> (\<forall>bs. n_best_of (self\<lparr>batch_size := bs\<rparr>) = Inr n_best)
           \<and> length (snapshots fin) = nat (n_itr self)
           \<and> length (dispatched fin) = nat (n_itr self)
           \<and> (\<forall>k < nat (n_itr self).
                 (arg_criterion (snd (dispatched fin ! k)), fst (dispatched fin ! k)) = (case batch_size self of
                   None \<Rightarrow> (''paths'', n_samples self)
                 | Some b \<Rightarrow> (''samples'', b))
                 \<and> (\<exists>std. update_distribution argsort n_best
                              (rc k (fst (dispatched fin ! k)) (snd (dispatched fin ! k)))
                            = Inr (snap_cur_mean (snapshots fin ! k), std,
                                   snap_policy (snapshots fin ! k))
                          \<and> snap_cur_std (snapshots fin ! k) = Vec std))
           \<and> n_best_of (default_cem\<lparr>n_samples := 100, batch_size := Some 4000\<rparr>) = Inr 5
           \<and> n_best_of (default_cem\<lparr>n_samples := 40, batch_size := Some 4000\<rparr>) = Inr 2"
proof -
  from train_trace [OF assms] obtain nb
    where nb: "n_best_of self = Inr nb"
      and l: "length (snapshots fin) = nat (n_itr self)"
        "length (dispatched fin) = nat (n_itr self)"
      and r: "\<forall>k<nat (n_itr self).
                 extra_decay_time self \<noteq> 0
                 \<and> (arg_criterion (snd (dispatched fin ! k)), fst (dispatched fin ! k)) = (case batch_size self of
                   None \<Rightarrow> (''paths'', n_samples self)
                 | Some b \<Rightarrow> (''samples'', b))
                 \<and> (\<exists>std. update_distribution argsort nb
                              (rc k (fst (dispatched fin ! k)) (snd (dispatched fin ! k)))
                            = Inr (snap_cur_mean (snapshots fin ! k), std,
                                   snap_policy (snapshots fin ! k))
                          \<and> snap_cur_std (snapshots fin ! k) = Vec std)"
    by blast
  from nb have pos: "1 \<le> nb" by (rule n_best_of_pos)
  from nb have formula: "\<exists>nf p. round64 (of_int (n_samples self)) = Some nf
                     \<and> round64 (nf * best_frac self) = Some p
                     \<and> nb = max 1 (py_int p)"
    by (auto simp: n_best_of_def float_of_int_def fmul_def split: option.splits)
  from nb have dep: "\<forall>other. n_samples other = n_samples self
                       \<and> best_frac other = best_frac self
                  \<longrightarrow> n_best_of other = Inr nb"
    using n_best_of_fields by metis
  then have bs: "\<forall>bs. n_best_of (self\<lparr>batch_size := bs\<rparr>) = Inr nb"
    by simp
  from r have tr: "\<forall>k < nat (n_itr self).
                 (arg_criterion (snd (dispatched fin ! k)), fst (dispatched fin ! k)) = (case batch_size self of
                   None \<Rightarrow> (''paths'', n_samples self)
                 | Some b \<Rightarrow> (''samples'', b))
                 \<and> (\<exists>std. update_distribution argsort nb
                              (rc k (fst (dispatched fin ! k)) (snd (dispatched fin ! k)))
                            = Inr (snap_cur_mean (snapshots fin ! k), std,
                                   snap_policy (snapshots fin ! k))
                          \<and> snap_cur_std (snapshots fin ! k) = Vec std)"
    by blast
  note ex = default_best_frac_100 [of "Some 4000"] default_best_frac_40 [of "Some 4000"]
  from nb pos formula dep bs l tr ex show ?thesis by blast
qed

theorem n_best_fixed_witness:
  "\<exists>fin. train example_cem example_argsort (\<lambda>_ _ _. example_infos) [0, 0] = Inr fin
         \<and> n_best_of example_cem = Inr 1
         \<and> length (snapshots fin) = 2
         \<and> map fst (dispatched fin) = [4000, 4000]
         \<and> map (arg_criterion \<circ> snd) (dispatched fin) = [''samples'', ''samples'']
         \<and> update_distribution example_argsort 1 example_infos
             = Inr (snap_cur_mean (snapshots fin ! 1), [0, 0], snap_policy (snapshots fin ! 1))"
proof -
  from example_train_runs obtain fin
    where run: "train example_cem example_argsort (\<lambda>_ _ _. example_infos) [0, 0] = Inr fin"
    by blast
  have n: "nat (n_itr example_cem) = 2"
    by (simp add: example_cem_def default_cem_def)
  have bs: "batch_size example_cem = Some 4000"
    by (simp add: example_cem_def)
  from n_best_fixed [OF run] example_n_best n
  have l: "length (snapshots fin) = 2" and l': "length (dispatched fin) = 2"
    and tr: "\<forall>k < 2.
               (arg_criterion (snd (dispatched fin ! k)), fst (dispatched fin ! k)) =
                 (''samples'', 4000)
               \<and> (\<exists>std. update_distribution example_argsort 1 example_infos
                          = Inr (snap_cur_mean (snapshots fin ! k), std,
                                 snap_policy (snapshots fin ! k))
                        \<and> snap_cur_std (snapshots fin ! k) = Vec std)"
    by (auto simp: bs)
  from tr [rule_format, of 0] tr [rule_format, of 1]
  have d0: "fst (dispatched fin ! 0) = 4000" "arg_criterion (snd (dispatched fin ! 0)) = ''samples''"
    and d1: "fst (dispatched fin ! 1) = 4000" "arg_criterion (snd (dispatched fin ! 1)) = ''samples''"
    and u: "\<exists>std. update_distribution example_argsort 1 example_infos
                          = Inr (snap_cur_mean (snapshots fin ! 1), std,
                                 snap_policy (snapshots fin ! 1))"
    by auto
  from l' obtain c0 c1 where cs: "dispatched fin = [c0, c1]"
    by (cases "dispatched fin"; cases "tl (dispatched fin)") (auto simp: numeral_eq_Suc)
  from d0 d1 have m: "map fst (dispatched fin) = [4000, 4000]"
    "map (arg_criterion \<circ> snd) (dispatched fin) = [''samples'', ''samples'']"
    by (simp_all add: cs)
  from u have "update_distribution example_argsort 1 example_infos
             = Inr (snap_cur_mean (snapshots fin ! 1), [0, 0], snap_policy (snapshots fin ! 1))"
    by (auto simp: example_update_single)
  with run l m example_n_best show ?thesis
    by (intro exI [of _ fin]) simp
qed

subsection \<open>Exploration schedule\<close>

text \<open>
  C4 (as stated, refuted). With \<open>extra_decay_time = -1\<close> the multiplier is 1 at
  iteration 0 and 6 at iteration 5: the extra variance grows, and it is not 0
  although \<open>5 \<ge> extra_decay_time\<close>.
\<close>

theorem extra_variance_negative_decay_counterexample:
  "extra_var_mult (default_cem\<lparr>extra_decay_time := - 1\<rparr>) 0 = Inr 1
   \<and> extra_var_mult (default_cem\<lparr>extra_decay_time := - 1\<rparr>) 5 = Inr 6
   \<and> (extra_std (default_cem\<lparr>extra_decay_time := - 1\<rparr>))\<^sup>2 * 1
       < (extra_std (default_cem\<lparr>extra_decay_time := - 1\<rparr>))\<^sup>2 * 6
   \<and> extra_decay_time (default_cem\<lparr>extra_decay_time := - 1\<rparr>) \<le> real 5
   \<and> (extra_std (default_cem\<lparr>extra_decay_time := - 1\<rparr>))\<^sup>2 * 6 \<noteq> 0"
  by (simp add: extra_var_mult_def default_cem_def)

text \<open>
  C4 (amended). In a run of \<open>train\<close> that completes, \<open>extra_decay_time\<close> is not 0 and at
  every iteration \<open>k\<close> the standard deviation handed to the workers is, in each
  component, \<open>sqrt(cur_std\<^sup>2 + extra_std\<^sup>2 * max(1 - k / extra_decay_time, 0))\<close>, where
  \<open>cur_std\<close> is \<open>init_std\<close> at the first iteration and the standard deviation fitted in
  the iteration before at the others; the extra variance
  \<open>extra_std\<^sup>2 * max(1 - k / extra_decay_time, 0)\<close> is not negative. When
  \<open>extra_decay_time\<close> is positive, the extra variance does not increase with the
  iteration index and is 0 at every index from \<open>extra_decay_time\<close> on.
\<close>

theorem extra_variance_schedule:
  assumes "train self argsort rc policy0 = Inr fin"
  shows "(\<forall>k < nat (n_itr self).
            extra_decay_time self \<noteq> 0
            \<and> extra_var_mult self k = Inr (max (1 - real k / extra_decay_time self) 0)
            \<and> flatten (arg_sample_std (snd (dispatched fin ! k)))
                = map (\<lambda>s. sqrt (s\<^sup>2 + (extra_std self)\<^sup>2
                                         * max (1 - real k / extra_decay_time self) 0))
                      (flatten (if k = 0 then Scalar (init_std self)
                                else snap_cur_std (snapshots fin ! (k - 1))))
            \<and> 0 \<le> (extra_std self)\<^sup>2 * max (1 - real k / extra_decay_time self) 0)
         \<and> (0 < extra_decay_time self \<longrightarrow>
              (\<forall>i j. i \<le> j \<longrightarrow>
                 (extra_std self)\<^sup>2 * max (1 - real j / extra_decay_time self) 0
                   \<le> (extra_std self)\<^sup>2 * max (1 - real i / extra_decay_time self) 0)
              \<and> (\<forall>i. extra_decay_time self \<le> real i \<longrightarrow>
                    extra_var_mult self i = Inr 0
                    \<and> (extra_std self)\<^sup>2 * max (1 - real i / extra_decay_time self) 0 = 0))"
proof -
  define T where "T = extra_decay_time self"
  from train_trace [OF assms] have
    first: "0 < nat (n_itr self) \<longrightarrow>
                 arg_sample_std (snd (dispatched fin ! 0))
                     = compute_sample_std self
                         (max (1 - real 0 / T) 0) (Scalar (init_std self))"
    and nxt: "\<forall>k. Suc k < nat (n_itr self) \<longrightarrow>
                 arg_sample_std (snd (dispatched fin ! Suc k))
                     = compute_sample_std self
                         (max (1 - real (Suc k) / T) 0)
                         (snap_cur_std (snapshots fin ! k))"
    and r: "\<forall>k<nat (n_itr self). T \<noteq> 0"
    unfolding T_def by blast+
  have fl: "flatten (compute_sample_std self m std0)
              = map (\<lambda>s. sqrt (s\<^sup>2 + (extra_std self)\<^sup>2 * m)) (flatten std0)" for m std0
    by (cases std0) (simp_all add: compute_sample_std_def)
  have run: "T \<noteq> 0
            \<and> extra_var_mult self k = Inr (max (1 - real k / T) 0)
            \<and> flatten (arg_sample_std (snd (dispatched fin ! k)))
                = map (\<lambda>s. sqrt (s\<^sup>2 + (extra_std self)\<^sup>2 * max (1 - real k / T) 0))
                      (flatten (if k = 0 then Scalar (init_std self)
                                else snap_cur_std (snapshots fin ! (k - 1))))
            \<and> 0 \<le> (extra_std self)\<^sup>2 * max (1 - real k / T) 0"
    if k: "k < nat (n_itr self)" for k
  proof -
    from r k have T: "T \<noteq> 0" by blast
    then have m: "extra_var_mult self k = Inr (max (1 - real k / T) 0)"
      by (simp add: extra_var_mult_def T_def)
    have s: "arg_sample_std (snd (dispatched fin ! k))
               = compute_sample_std self (max (1 - real k / T) 0)
                   (if k = 0 then Scalar (init_std self)
                    else snap_cur_std (snapshots fin ! (k - 1)))"
    proof (cases k)
      case 0
      with first k show ?thesis by simp
    next
      case (Suc k')
      with nxt k show ?thesis by simp
    qed
    have "0 \<le> (extra_std self)\<^sup>2 * max (1 - real k / T) 0" by simp
    with T m s show ?thesis by (simp only: fl) simp
  qed
  have mono: "(extra_std self)\<^sup>2 * max (1 - real j / T) 0
                \<le> (extra_std self)\<^sup>2 * max (1 - real i / T) 0"
    if T: "0 < T" and ij: "i \<le> j" for i j
  proof -
    from ij T have "real i / T \<le> real j / T"
      by (simp add: divide_right_mono)
    then have "max (1 - real j / T) 0 \<le> max (1 - real i / T) 0" by auto
    then show ?thesis by (simp add: mult_left_mono)
  qed
  have zero: "extra_var_mult self i = Inr 0
              \<and> (extra_std self)\<^sup>2 * max (1 - real i / T) 0 = 0"
    if T: "0 < T" and i: "T \<le> real i" for i
  proof -
    from i T have "1 \<le> real i / T" by simp
    then have "max (1 - real i / T) 0 = 0" by simp
    with T show ?thesis by (simp add: extra_var_mult_def T_def)
  qed
  from run mono zero show ?thesis
    unfolding T_def by blast
qed

theorem extra_variance_schedule_witness:
  "\<exists>fin. train example_cem example_argsort (\<lambda>_ _ _. example_infos) [0, 0] = Inr fin
         \<and> extra_var_mult example_cem 1 = Inr (99 / 100)
         \<and> flatten (arg_sample_std (snd (dispatched fin ! 0))) = [sqrt 2]
         \<and> flatten (arg_sample_std (snd (dispatched fin ! 1)))
             = map (\<lambda>s. sqrt (s\<^sup>2 + 99 / 100)) (flatten (snap_cur_std (snapshots fin ! 0)))
         \<and> 0 < extra_decay_time example_cem
         \<and> extra_var_mult example_cem 100 = Inr 0"
proof -
  from example_train_runs obtain fin
    where run: "train example_cem example_argsort (\<lambda>_ _ _. example_infos) [0, 0] = Inr fin"
    by blast
  have c: "nat (n_itr example_cem) = 2" "extra_decay_time example_cem = 100"
    "extra_std example_cem = 1" "init_std example_cem = 1"
    by (simp_all add: example_cem_def default_cem_def)
  note th = extra_variance_schedule [OF run, unfolded c]
  from th have step: "\<forall>k < 2.
            extra_var_mult example_cem k = Inr (max (1 - real k / 100) 0)
            \<and> flatten (arg_sample_std (snd (dispatched fin ! k)))
                = map (\<lambda>s. sqrt (s\<^sup>2 + 1\<^sup>2 * max (1 - real k / 100) 0))
                      (flatten (if k = 0 then Scalar 1
                                else snap_cur_std (snapshots fin ! (k - 1))))"
    by blast
  from th have z: "extra_var_mult example_cem 100 = Inr 0"
    by simp
  from step [rule_format, of 0] step [rule_format, of 1]
  have "extra_var_mult example_cem 1 = Inr (99 / 100)"
    and "flatten (arg_sample_std (snd (dispatched fin ! 0))) = [sqrt 2]"
    and "flatten (arg_sample_std (snd (dispatched fin ! 1)))
             = map (\<lambda>s. sqrt (s\<^sup>2 + 99 / 100)) (flatten (snap_cur_std (snapshots fin ! 0)))"
    by simp_all
  with run z c show ?thesis
    by (intro exI [of _ fin]) simp
qed

subsection \<open>A single survivor\<close>

lemma update_single:
  assumes "update_distribution argsort 1 infos = Inr (m, sd, b)"
  shows "m = b \<and> sd = replicate (length b) 0 \<and> (\<exists>i<length infos. b = fst (infos ! i))"
proof -
  from assms obtain fs where fs: "first_returns (map snd infos) = Inr fs"
    by (auto simp: update_distribution_def Let_def split: sum.splits)
  define best where "best = take (Suc 0) (argsort (map (map_option uminus) fs))"
  have sl: "slice_to 1 (argsort (map (map_option uminus) fs)) = best"
    by (simp add: slice_to_def best_def)
  have len: "length best \<le> Suc 0"
    by (simp add: best_def)
  from assms have
    chk: "\<not> (\<exists>i \<in> set best. length infos \<le> i)"
    and u: "(case map (\<lambda>i. map fst infos ! i) best of
                [] \<Rightarrow> Inl IndexError
              | best_x # _ \<Rightarrow>
                  Inr (mean_axis0 (map (\<lambda>i. map fst infos ! i) best),
                       std_axis0 (map (\<lambda>i. map fst infos ! i) best), best_x))
        = Inr (m, sd, b)"
    by (auto simp: update_distribution_def Let_def fs sl split: if_splits)
  show ?thesis
  proof (cases best)
    case Nil
    with u show ?thesis by simp
  next
    case (Cons i rest)
    with len have b1: "best = [i]" by simp
    with chk have i: "i < length infos" by auto
    with u b1 show ?thesis
      by (auto simp: mean_axis0_single std_axis0_single)
  qed
qed

text \<open>
  C8. With \<open>n_best = 1\<close> the update of a non-empty batch succeeds; the new mean is the
  parameter vector ranked first and the new std is the zero vector. A run of \<open>train\<close>
  with \<open>n_best = 1\<close> that completes carries this on: after every iteration the std is
  the zero vector and the mean is the selected parameter vector of the batch, and the
  next iteration samples around that mean with, in every component, the standard
  deviation \<open>sqrt(extra_std\<^sup>2 * max(1 - itr / extra_decay_time, 0))\<close>, the decaying
  exploration term alone.
\<close>

theorem single_survivor_update:
  assumes fit: "list_all2 (\<lambda>info v. \<exists>rest. result_returns (snd info) = Some v # rest) infos f"
    and ne: "infos \<noteq> []"
    and srt: "is_argsort (map (\<lambda>v. Some (- v)) f) (argsort (map (\<lambda>v. Some (- v)) f))"
  shows "(let x = fst (infos ! (argsort (map (\<lambda>v. Some (- v)) f) ! 0));
              zero = replicate (length x) 0
          in update_distribution argsort 1 infos = Inr (x, zero, x)
             \<and> (\<forall>k<length infos. f ! k \<le> f ! (argsort (map (\<lambda>v. Some (- v)) f) ! 0)))
         \<and> (\<forall>self rc policy0 fin.
               train self argsort rc policy0 = Inr fin \<and> n_best_of self = Inr 1 \<longrightarrow>
               (\<forall>k<nat (n_itr self).
                  snap_cur_std (snapshots fin ! k)
                    = Vec (replicate (length (snap_cur_mean (snapshots fin ! k))) 0)
                  \<and> snap_policy (snapshots fin ! k) = snap_cur_mean (snapshots fin ! k)
                  \<and> (\<exists>i<length (rc k (fst (dispatched fin ! k)) (snd (dispatched fin ! k))).
                        snap_cur_mean (snapshots fin ! k)
                          = fst (rc k (fst (dispatched fin ! k)) (snd (dispatched fin ! k)) ! i))
                  \<and> (Suc k < nat (n_itr self) \<longrightarrow>
                        arg_cur_mean (snd (dispatched fin ! Suc k))
                          = snap_cur_mean (snapshots fin ! k)
                        \<and> arg_sample_std (snd (dispatched fin ! Suc k))
                            = Vec (replicate (length (snap_cur_mean (snapshots fin ! k)))
                                     (sqrt ((extra_std self)\<^sup>2
                                        * max (1 - real (Suc k) / extra_decay_time self) 0))))))"
proof -
  define p where "p = argsort (map (\<lambda>v. Some (- v)) f)"
  define x where "x = fst (infos ! (p ! 0))"
  from fit have lf: "length f = length infos"
    by (simp add: list_all2_lengthD)
  from srt have srt': "is_argsort (map (\<lambda>v. Some (- v)) f) p"
    by (simp add: p_def)
  have top: "\<forall>k<length infos. f ! k \<le> f ! (p ! 0)"
    using is_argsort_top [OF srt'] lf by simp
  have one: "(1::int) \<le> 1" by simp
  from update_distribution_value [where argsort = argsort, OF fit ne srt one] obtain rest
    where bst: "take (Suc 0) p = p ! 0 # rest"
      and upd: "update_distribution argsort 1 infos =
                  Inr (mean_axis0 (map (\<lambda>i. fst (infos ! i)) (take (Suc 0) p)),
                       std_axis0 (map (\<lambda>i. fst (infos ! i)) (take (Suc 0) p)),
                       fst (infos ! (p ! 0)))"
    unfolding p_def by auto
  from bst have "length (p ! 0 # rest) \<le> Suc 0"
    by (metis length_take min.cobounded2)
  then have "rest = []" by simp
  with bst have "take (Suc 0) p = [p ! 0]" by simp
  with upd have u: "update_distribution argsort 1 infos = Inr (x, replicate (length x) 0, x)"
    by (simp add: mean_axis0_single std_axis0_single x_def)
  have part1: "let x = fst (infos ! (argsort (map (\<lambda>v. Some (- v)) f) ! 0));
              zero = replicate (length x) 0
          in update_distribution argsort 1 infos = Inr (x, zero, x)
             \<and> (\<forall>k<length infos. f ! k \<le> f ! (argsort (map (\<lambda>v. Some (- v)) f) ! 0))"
    using u top unfolding Let_def p_def [symmetric] x_def [symmetric] by blast
  have part2: "snap_cur_std (snapshots fin ! k)
                    = Vec (replicate (length (snap_cur_mean (snapshots fin ! k))) 0)
                  \<and> snap_policy (snapshots fin ! k) = snap_cur_mean (snapshots fin ! k)
                  \<and> (\<exists>i<length (rc k (fst (dispatched fin ! k)) (snd (dispatched fin ! k))).
                        snap_cur_mean (snapshots fin ! k)
                          = fst (rc k (fst (dispatched fin ! k)) (snd (dispatched fin ! k)) ! i))
                  \<and> (Suc k < nat (n_itr self) \<longrightarrow>
                        arg_cur_mean (snd (dispatched fin ! Suc k))
                          = snap_cur_mean (snapshots fin ! k)
                        \<and> arg_sample_std (snd (dispatched fin ! Suc k))
                            = Vec (replicate (length (snap_cur_mean (snapshots fin ! k)))
                                     (sqrt ((extra_std self)\<^sup>2
                                        * max (1 - real (Suc k) / extra_decay_time self) 0))))"
    if run: "train self argsort rc policy0 = Inr fin" and nb1: "n_best_of self = Inr 1"
      and k: "k < nat (n_itr self)"
    for self rc policy0 fin k
  proof -
    from train_trace [OF run] nb1 have
      nxt: "\<forall>k. Suc k < nat (n_itr self) \<longrightarrow>
                 arg_cur_mean (snd (dispatched fin ! Suc k)) = snap_cur_mean (snapshots fin ! k)
                 \<and> arg_sample_std (snd (dispatched fin ! Suc k))
                     = compute_sample_std self
                         (max (1 - real (Suc k) / extra_decay_time self) 0)
                         (snap_cur_std (snapshots fin ! k))"
      and r: "\<forall>k<nat (n_itr self).
                 (\<exists>std. update_distribution argsort 1
                              (rc k (fst (dispatched fin ! k)) (snd (dispatched fin ! k)))
                            = Inr (snap_cur_mean (snapshots fin ! k), std,
                                   snap_policy (snapshots fin ! k))
                          \<and> snap_cur_std (snapshots fin ! k) = Vec std)"
      by auto
    from r k obtain std
      where ud: "update_distribution argsort 1
                   (rc k (fst (dispatched fin ! k)) (snd (dispatched fin ! k)))
                 = Inr (snap_cur_mean (snapshots fin ! k), std, snap_policy (snapshots fin ! k))"
        and sv: "snap_cur_std (snapshots fin ! k) = Vec std"
      by blast
    from update_single [OF ud]
    have mp: "snap_cur_mean (snapshots fin ! k) = snap_policy (snapshots fin ! k)"
      and z: "std = replicate (length (snap_policy (snapshots fin ! k))) 0"
      and row: "\<exists>i<length (rc k (fst (dispatched fin ! k)) (snd (dispatched fin ! k))).
                  snap_policy (snapshots fin ! k)
                    = fst (rc k (fst (dispatched fin ! k)) (snd (dispatched fin ! k)) ! i)"
      by blast+
    from sv z mp have zero: "snap_cur_std (snapshots fin ! k)
                    = Vec (replicate (length (snap_cur_mean (snapshots fin ! k))) 0)"
      by simp
    have next_itr: "arg_cur_mean (snd (dispatched fin ! Suc k))
                          = snap_cur_mean (snapshots fin ! k)
                        \<and> arg_sample_std (snd (dispatched fin ! Suc k))
                            = Vec (replicate (length (snap_cur_mean (snapshots fin ! k)))
                                     (sqrt ((extra_std self)\<^sup>2
                                        * max (1 - real (Suc k) / extra_decay_time self) 0)))"
      if "Suc k < nat (n_itr self)"
      using nxt that by (simp add: zero compute_sample_std_def)
    from zero mp row next_itr show ?thesis by simp
  qed
  from part1 part2 show ?thesis by blast
qed

theorem single_survivor_update_witness:
  "list_all2 (\<lambda>info v. \<exists>rest. result_returns (snd info) = Some v # rest)
     example_infos [3, 1, 4, 1]
   \<and> example_infos \<noteq> []
   \<and> is_argsort (map (\<lambda>v. Some (- v)) [3, 1, 4, 1])
        (example_argsort (map (\<lambda>v. Some (- v)) [3, 1, 4, 1]))
   \<and> update_distribution example_argsort 1 example_infos = Inr ([1, 5], [0, 0], [1, 5])
   \<and> n_best_of example_cem = Inr 1
   \<and> (\<exists>fin. train example_cem example_argsort (\<lambda>_ _ _. example_infos) [0, 0] = Inr fin
             \<and> snap_cur_mean (snapshots fin ! 0) = [1, 5]
             \<and> snap_cur_std (snapshots fin ! 0) = Vec [0, 0]
             \<and> arg_cur_mean (snd (dispatched fin ! 1)) = [1, 5]
             \<and> arg_sample_std (snd (dispatched fin ! 1))
                 = Vec [sqrt (99 / 100), sqrt (99 / 100)])"
proof -
  have fit: "list_all2 (\<lambda>info v. \<exists>rest. result_returns (snd info) = Some v # rest)
               example_infos [3, 1, 4, 1]"
    by (simp add: example_infos_def example_result_returns)
  have ne: "example_infos \<noteq> []"
    by (simp add: example_infos_def)
  have srt: "is_argsort (map (\<lambda>v. Some (- v)) [3, 1, 4, 1])
               (example_argsort (map (\<lambda>v. Some (- v)) [3, 1, 4, 1]))"
    by (rule example_argsort_ok)
  have x: "fst (example_infos ! (example_argsort keys ! 0)) = [1, 5]" for keys
    by (simp add: example_infos_def example_argsort_def)
  from example_train_runs obtain fin
    where run: "train example_cem example_argsort (\<lambda>_ _ _. example_infos) [0, 0] = Inr fin"
    by blast
  have c: "nat (n_itr example_cem) = 2" "extra_decay_time example_cem = 100"
    "extra_std example_cem = 1"
    by (simp_all add: example_cem_def default_cem_def)
  note th = single_survivor_update [where argsort = example_argsort, OF fit ne srt]
  from th have u: "update_distribution example_argsort 1 example_infos
                     = Inr ([1, 5], [0, 0], [1, 5])"
    by (simp add: Let_def x numeral_eq_Suc)
  from th run example_n_best have
    tr: "\<forall>k<2. snap_cur_std (snapshots fin ! k)
                    = Vec (replicate (length (snap_cur_mean (snapshots fin ! k))) 0)
                \<and> (\<exists>i<length example_infos.
                        snap_cur_mean (snapshots fin ! k) = fst (example_infos ! i))
                \<and> (Suc k < 2 \<longrightarrow>
                        arg_cur_mean (snd (dispatched fin ! Suc k))
                          = snap_cur_mean (snapshots fin ! k)
                        \<and> arg_sample_std (snd (dispatched fin ! Suc k))
                            = Vec (replicate (length (snap_cur_mean (snapshots fin ! k)))
                                     (sqrt (1\<^sup>2 * max (1 - real (Suc k) / 100) 0))))"
    unfolding c [symmetric] by blast
  from train_trace [OF run] example_n_best
  have "\<forall>k<2. \<exists>std. update_distribution example_argsort 1 example_infos
                       = Inr (snap_cur_mean (snapshots fin ! k), std,
                              snap_policy (snapshots fin ! k))"
    unfolding c [symmetric] by auto
  from this [rule_format, of 0] have m0: "snap_cur_mean (snapshots fin ! 0) = [1, 5]"
    by (auto simp: example_update_single)
  from tr [rule_format, of 0] m0
  have "snap_cur_std (snapshots fin ! 0) = Vec [0, 0]"
    and "arg_cur_mean (snd (dispatched fin ! 1)) = [1, 5]"
    and "arg_sample_std (snd (dispatched fin ! 1)) = Vec [sqrt (99 / 100), sqrt (99 / 100)]"
    by (simp_all add: numeral_eq_Suc)
  with run m0 have "\<exists>fin. train example_cem example_argsort (\<lambda>_ _ _. example_infos) [0, 0] = Inr fin
             \<and> snap_cur_mean (snapshots fin ! 0) = [1, 5]
             \<and> snap_cur_std (snapshots fin ! 0) = Vec [0, 0]
             \<and> arg_cur_mean (snd (dispatched fin ! 1)) = [1, 5]
             \<and> arg_sample_std (snd (dispatched fin ! 1))
                 = Vec [sqrt (99 / 100), sqrt (99 / 100)]"
    by (intro exI [of _ fin]) simp
  with fit ne srt u example_n_best show ?thesis by simp
qed

end
